theory Spec2Isabelle
  imports Main "HOL-Library.Word"
begin

section \<open>Raw-coordinate scalar multiplication: \<open>secp256k1_pubkey_scalar_mul\<close>\<close>

text \<open>
  The development embeds the single routine of
  \<^verbatim>\<open>src/crypto/secp256k1/libsecp256k1/src/modules/ecdh/pubkey_scalar_mul.h\<close>.
  The routine is forty lines of glue around an arithmetic library whose code is not part of
  the sources at hand. The glue (argument checks, the scalar guard, the order of the calls,
  the two copies into the output buffers, the final clear) is translated line by line. The
  library is treated in two ways:
  \<^item> its small, fully specified helpers (scalar parsing, field normalisation and
    serialisation, the clear, the argument-check macro) are definitions modelled from the
    specification;
  \<^item> point loading, the multiplication kernel, the conversion to affine form and the
    layout of the context object are parameters of the routine (the record \<open>kernel\<close>),
    so that every theorem that does not mention a contract holds for every implementation
    of them.

  The caller's memory is one array of bytes and the pointer arguments are addresses into
  it, so that a call may hand in buffers that overlap.
\<close>

subsection \<open>Bytes and big-endian integers\<close>

type_synonym byte = "8 word"

text \<open>The integer a byte string denotes, most significant byte first.\<close>

definition be_nat :: "byte list \<Rightarrow> nat" where
  "be_nat bs = foldl (\<lambda>acc b. acc * 256 + unat b) 0 bs"

text \<open>The 32-byte big-endian encoding of a number (its low 256 bits).\<close>

definition be32 :: "nat \<Rightarrow> byte list" where
  "be32 v = map (\<lambda>i. of_nat (v div 256 ^ (31 - i))) [0..<32]"

subsection \<open>The caller's memory\<close>

text \<open>
  Memory is a function from addresses to bytes. \<open>load_bytes h a n\<close> reads the \<open>n\<close> bytes
  from address \<open>a\<close> on; \<open>store_bytes h a bs\<close> writes the bytes \<open>bs\<close> from address \<open>a\<close>
  on and leaves every other byte.
\<close>

type_synonym addr = nat

type_synonym memory = "addr \<Rightarrow> byte"

definition load_bytes :: "memory \<Rightarrow> addr \<Rightarrow> nat \<Rightarrow> byte list" where
  "load_bytes h a n = map h [a..<a + n]"

definition store_bytes :: "memory \<Rightarrow> addr \<Rightarrow> byte list \<Rightarrow> memory" where
  "store_bytes h a bs = (\<lambda>i. if a \<le> i \<and> i < a + length bs then bs ! (i - a) else h i)"

text \<open>
  \<^verbatim>\<open>memcpy(dst, src, n)\<close> where the source is a local array of the routine (it cannot
  overlap the caller's memory): the \<open>n\<close> bytes at \<open>dst\<close> are replaced by the first \<open>n\<close>
  bytes of the source.
\<close>

definition memcpy :: "memory \<Rightarrow> addr \<Rightarrow> byte list \<Rightarrow> nat \<Rightarrow> memory" where
  "memcpy h dst src n = store_bytes h dst (take n src)"

text \<open>Two regions, \<open>n\<close> bytes at \<open>a\<close> and \<open>k\<close> bytes at \<open>b\<close>, that do not overlap.\<close>

definition separate :: "addr \<Rightarrow> nat \<Rightarrow> addr \<Rightarrow> nat \<Rightarrow> bool" where
  "separate a n b k = (a + n \<le> b \<or> b + k \<le> a)"

subsection \<open>Curve constants\<close>

text \<open>
  Modelled from the spec: the curve parameters, which live in the library's field and
  scalar implementation and not under \<^verbatim>\<open>src/\<close>. The spec speaks of ``the curve's prime
  field'' and ``the group order \<open>n\<close>''; the routine's name fixes the curve as secp256k1,
  whose field prime and group order are the two published constants below.
\<close>

definition secp256k1_p :: nat where
  "secp256k1_p = 0xFFFFFFFFFFFFFFFFFFFFFFFFFFFFFFFFFFFFFFFFFFFFFFFFFFFFFFFEFFFFFC2F"

definition secp256k1_n :: nat where
  "secp256k1_n = 0xFFFFFFFFFFFFFFFFFFFFFFFFFFFFFFFEBAAEDCE6AF48A03BBFD25E8CD0364141"

subsection \<open>Library types\<close>

text \<open>
  Modelled from the spec: the library's data types, declared in headers that are not under
  \<^verbatim>\<open>src/\<close>. A field element is its internal representation, a natural number that may
  exceed the prime (``field elements may have multiple internal representations for the
  same logical value''); the logical value is the representation modulo \<open>secp256k1_p\<close>.
  A scalar is a value reduced modulo the group order. A group element is affine
  (\<open>secp256k1_ge\<close>) or Jacobian (\<open>secp256k1_gej\<close>). The public key is the opaque
  64-byte object the caller hands in. Of the context only the illegal-argument handler
  matters here: it either terminates the process (the default) or comes back.
  \<open>secp256k1_context\<close> is what the library reads out of a context object; how many bytes
  that object has and how they are read are parameters (\<open>context_size\<close> and
  \<open>context_of\<close> below).
\<close>

type_synonym secp256k1_fe = nat

type_synonym secp256k1_scalar = nat

record secp256k1_ge =
  ge_x :: secp256k1_fe
  ge_y :: secp256k1_fe
  ge_infinity :: bool

record secp256k1_gej =
  gej_x :: secp256k1_fe
  gej_y :: secp256k1_fe
  gej_z :: secp256k1_fe
  gej_infinity :: bool

record secp256k1_pubkey =
  data :: "byte list"

datatype callback = Cb_abort | Cb_return

record secp256k1_context =
  illegal_callback :: callback

subsection \<open>Library helpers with a complete specification\<close>

text \<open>
  Modelled from the spec: \<open>secp256k1_scalar_set_b32\<close>, absent from \<^verbatim>\<open>src/\<close>.
  ``Parse the 32-byte secret buffer into an internal scalar value reduced modulo the group
  order \<open>n\<close>, and simultaneously detect whether the raw byte value was \<open>\<ge> n\<close> (overflow).''
  The result is the scalar and the overflow flag.
\<close>

definition secp256k1_scalar_set_b32 :: "byte list \<Rightarrow> secp256k1_scalar \<times> int" where
  "secp256k1_scalar_set_b32 b32 =
     (let v = be_nat (take 32 b32)
      in (v mod secp256k1_n, if secp256k1_n \<le> v then 1 else 0))"

text \<open>
  Modelled from the spec: \<open>secp256k1_scalar_is_zero\<close>, absent from \<^verbatim>\<open>src/\<close>
  (``a reduced value of exactly zero'').
\<close>

definition secp256k1_scalar_is_zero :: "secp256k1_scalar \<Rightarrow> bool" where
  "secp256k1_scalar_is_zero a = (a = 0)"

text \<open>
  Modelled from the spec: \<open>secp256k1_scalar_clear\<close>, absent from \<^verbatim>\<open>src/\<close>
  (``the scalar's memory is explicitly zeroed''). The argument is the old content.
\<close>

definition secp256k1_scalar_clear :: "secp256k1_scalar \<Rightarrow> secp256k1_scalar" where
  "secp256k1_scalar_clear r = 0"

text \<open>
  Modelled from the spec: \<open>secp256k1_fe_normalize\<close>, absent from \<^verbatim>\<open>src/\<close>
  (``normalize each coordinate's field-element representation to its unique canonical
  form'').
\<close>

definition secp256k1_fe_normalize :: "secp256k1_fe \<Rightarrow> secp256k1_fe" where
  "secp256k1_fe_normalize r = r mod secp256k1_p"

text \<open>
  Modelled from the spec: \<open>secp256k1_fe_get_b32\<close>, absent from \<^verbatim>\<open>src/\<close>
  (``exactly 32 raw bytes, big-endian''). It writes the representation it is given; only on
  a normalised element is that the canonical encoding.
\<close>

definition secp256k1_fe_get_b32 :: "secp256k1_fe \<Rightarrow> byte list" where
  "secp256k1_fe_get_b32 a = be32 a"

subsection \<open>The kernel: parameters of the routine\<close>

text \<open>
  Point loading, the constant-time multiplication and the Jacobian-to-affine conversion
  are ``external collaborators'' of the spec and absent from \<^verbatim>\<open>src/\<close>. They enter the
  model as parameters: pure functions of their inputs that cannot fail (the source ignores
  the value \<open>secp256k1_pubkey_load\<close> returns, and the other two return nothing). So does
  the declaration of the context type: \<open>context_size\<close> is the size of a context object
  in bytes and \<open>context_of\<close> reads such an object.
\<close>

record kernel =
  context_size :: nat
  context_of :: "byte list \<Rightarrow> secp256k1_context"
  secp256k1_pubkey_load :: "secp256k1_pubkey \<Rightarrow> secp256k1_ge"
  secp256k1_ecmult_const :: "secp256k1_ge \<Rightarrow> secp256k1_scalar \<Rightarrow> secp256k1_gej"
  secp256k1_ge_set_gej :: "secp256k1_gej \<Rightarrow> secp256k1_ge"

subsection \<open>The call frame\<close>

text \<open>
  The events of a call, in the order in which they happen: one per library call of the
  source, named after the callee.
\<close>

datatype coord = Coord_x | Coord_y

datatype event =
    Ev_illegal_callback string
  | Ev_pubkey_load
  | Ev_scalar_set_b32
  | Ev_scalar_is_zero
  | Ev_ecmult_const secp256k1_ge secp256k1_scalar
  | Ev_ge_set_gej
  | Ev_fe_normalize coord
  | Ev_fe_get_b32 coord
  | Ev_memcpy coord
  | Ev_scalar_clear

text \<open>
  What a call can read and write: the caller's memory and the five pointer arguments. A
  pointer is \<open>None\<close> when it is \<^verbatim>\<open>NULL\<close> and an address otherwise. Nothing is assumed about
  the addresses: an output buffer may overlap the other one, the scalar, the key object or
  the context, as the prototype allows. \<open>local_s\<close> is the storage of the local variable
  \<^verbatim>\<open>s\<close>, which is not part of the caller's memory: it is not initialised by the source, so
  at entry it holds whatever the stack held. \<open>trace\<close> is the list of events so far.
\<close>

record frame =
  mem :: memory
  ctx :: "addr option"
  x_res :: "addr option"
  y_res :: "addr option"
  point :: "addr option"
  scalar :: "addr option"
  local_s :: secp256k1_scalar
  trace :: "event list"

text \<open>
  How a call ends: it returns an \<^verbatim>\<open>int\<close>, or the handler has ended the process, or the
  call has dereferenced a null context. The last is undefined behaviour; the model stops
  there and records the frame as it stood.
\<close>

datatype exit = Exit_return int | Exit_abort | Exit_undefined

text \<open>The objects behind the context and the point argument.\<close>

definition context_at :: "kernel \<Rightarrow> memory \<Rightarrow> addr \<Rightarrow> secp256k1_context" where
  "context_at K h c = context_of K (load_bytes h c (context_size K))"

definition pubkey_at :: "memory \<Rightarrow> addr \<Rightarrow> secp256k1_pubkey" where
  "pubkey_at h a = \<lparr>data = load_bytes h a 64\<rparr>"

definition log_event :: "event \<Rightarrow> frame \<Rightarrow> frame" where
  "log_event e m = m\<lparr>trace := trace m @ [e]\<rparr>"

text \<open>
  Modelled from the spec: the \<^verbatim>\<open>ARG_CHECK\<close> macro of the library's utility header, absent
  from \<^verbatim>\<open>src/\<close>. On a failed condition it ``invok[es] a precondition-violation handler
  (caller-configured; default behavior is to abort the process)'' with the text of the
  condition. The spec does not say what follows when a caller-configured handler comes
  back; the library's macro then leaves the enclosing function at once with 0, and that is
  what the model does (the code behind the checks dereferences the pointers, so it cannot
  go on). The condition of all four uses is that a pointer is not \<^verbatim>\<open>NULL\<close>, so the
  macro takes the pointer and hands the address to the rest of the function. The handler is
  read through \<^verbatim>\<open>ctx\<close>, which no check guards: with a null context no handler is reached.
\<close>

definition ARG_CHECK ::
  "kernel \<Rightarrow> frame \<Rightarrow> addr option \<Rightarrow> string \<Rightarrow> (addr \<Rightarrow> exit \<times> frame) \<Rightarrow> exit \<times> frame"
  where
  "ARG_CHECK K m ptr cond rest =
     (case ptr of
        Some a \<Rightarrow> rest a
      | None \<Rightarrow>
          (case ctx m of
             None \<Rightarrow> (Exit_undefined, m)
           | Some c \<Rightarrow>
               (case illegal_callback (context_at K (mem m) c) of
                  Cb_abort \<Rightarrow> (Exit_abort, log_event (Ev_illegal_callback cond) m)
                | Cb_return \<Rightarrow> (Exit_return 0, log_event (Ev_illegal_callback cond) m))))"

subsection \<open>The routine\<close>

text \<open>
  Lines 17 to 43 of the source: everything behind the argument checks. \<open>xa\<close>, \<open>ya\<close>,
  \<open>pa\<close> and \<open>sa\<close> are the four addresses. The key object and the scalar are read from
  memory at lines 18 and 19, before anything is written; the two copies of lines 37 and 38
  write to memory in that order.
\<close>

definition scalar_mul_body ::
  "kernel \<Rightarrow> frame \<Rightarrow> addr \<Rightarrow> addr \<Rightarrow> addr \<Rightarrow> addr \<Rightarrow> exit \<times> frame"
  where
  "scalar_mul_body K m xa ya pa sa =
     (let pt = secp256k1_pubkey_load K (pubkey_at (mem m) pa);
          m1 = log_event Ev_pubkey_load m;
          (s, overflow) = secp256k1_scalar_set_b32 (load_bytes (mem m1) sa 32);
          m2 = (log_event Ev_scalar_set_b32 m1)\<lparr>local_s := s\<rparr>;
          (rejected, m3) =
            (if overflow \<noteq> 0 then (True, m2)
             else (secp256k1_scalar_is_zero s, log_event Ev_scalar_is_zero m2));
          (ret, m4) =
            (if rejected then (0, m3)
             else
               (let res = secp256k1_ecmult_const K pt s;
                    pt' = secp256k1_ge_set_gej K res;
                    px = secp256k1_fe_normalize (ge_x pt');
                    py = secp256k1_fe_normalize (ge_y pt');
                    x = secp256k1_fe_get_b32 px;
                    y = secp256k1_fe_get_b32 py;
                    m' = m3\<lparr>trace := trace m3 @
                           [Ev_ecmult_const pt s, Ev_ge_set_gej,
                            Ev_fe_normalize Coord_x, Ev_fe_normalize Coord_y,
                            Ev_fe_get_b32 Coord_x, Ev_fe_get_b32 Coord_y,
                            Ev_memcpy Coord_x, Ev_memcpy Coord_y]\<rparr>
                in (1, m'\<lparr>mem := memcpy (memcpy (mem m') xa x 32) ya y 32\<rparr>)))
      in (Exit_return ret,
          (log_event Ev_scalar_clear m4)\<lparr>local_s := secp256k1_scalar_clear (local_s m4)\<rparr>))"

definition secp256k1_pubkey_scalar_mul :: "kernel \<Rightarrow> frame \<Rightarrow> exit \<times> frame" where
  "secp256k1_pubkey_scalar_mul K m =
     ARG_CHECK K m (x_res m) ''x_res != NULL'' (\<lambda>xa.
     ARG_CHECK K m (y_res m) ''y_res != NULL'' (\<lambda>ya.
     ARG_CHECK K m (point m) ''point != NULL'' (\<lambda>pa.
     ARG_CHECK K m (scalar m) ''scalar != NULL'' (\<lambda>sa.
       scalar_mul_body K m xa ya pa sa))))"

text \<open>
  What the pointers of a frame point to: the 32 bytes behind \<^verbatim>\<open>x_res\<close>, \<^verbatim>\<open>y_res\<close> and
  \<^verbatim>\<open>scalar\<close>, the key object behind \<^verbatim>\<open>point\<close> and the bytes of the context object;
  \<open>None\<close> behind a null pointer.
\<close>

definition x_bytes :: "frame \<Rightarrow> byte list option" where
  "x_bytes m = map_option (\<lambda>a. load_bytes (mem m) a 32) (x_res m)"

definition y_bytes :: "frame \<Rightarrow> byte list option" where
  "y_bytes m = map_option (\<lambda>a. load_bytes (mem m) a 32) (y_res m)"

definition scalar_bytes :: "frame \<Rightarrow> byte list option" where
  "scalar_bytes m = map_option (\<lambda>a. load_bytes (mem m) a 32) (scalar m)"

definition point_object :: "frame \<Rightarrow> secp256k1_pubkey option" where
  "point_object m = map_option (pubkey_at (mem m)) (point m)"

definition context_bytes :: "kernel \<Rightarrow> frame \<Rightarrow> byte list option" where
  "context_bytes K m = map_option (\<lambda>c. load_bytes (mem m) c (context_size K)) (ctx m)"

text \<open>The two components of a call's outcome: how it ends, and the frame it leaves.\<close>

abbreviation exit_of :: "kernel \<Rightarrow> frame \<Rightarrow> exit" where
  "exit_of K m \<equiv> fst (secp256k1_pubkey_scalar_mul K m)"

abbreviation frame_after :: "kernel \<Rightarrow> frame \<Rightarrow> frame" where
  "frame_after K m \<equiv> snd (secp256k1_pubkey_scalar_mul K m)"

subsection \<open>Reference arithmetic on the curve\<close>

text \<open>
  The reference against which the routine is compared: the textbook affine group law of
  the curve \<open>y\<^sup>2 = x\<^sup>3 + 7\<close> over the integers modulo \<open>secp256k1_p\<close>, and scalar
  multiplication as repeated addition. None of it is taken from the library. Coordinates
  are canonical (below the prime).
\<close>

definition fe_sub :: "nat \<Rightarrow> nat \<Rightarrow> nat" where
  "fe_sub a b = (a + (secp256k1_p - b mod secp256k1_p)) mod secp256k1_p"

fun fe_pow :: "nat \<Rightarrow> nat \<Rightarrow> nat" where
  "fe_pow b e =
     (if e = 0 then 1
      else (let h = fe_pow (b * b mod secp256k1_p) (e div 2)
            in if odd e then b * h mod secp256k1_p else h))"

declare fe_pow.simps [simp del]

definition fe_inv :: "nat \<Rightarrow> nat" where
  "fe_inv a = fe_pow a (secp256k1_p - 2)"

datatype curve_point = Point_at_infinity | Affine nat nat

definition point_double :: "nat \<Rightarrow> nat \<Rightarrow> curve_point" where
  "point_double x y =
     (let lam = 3 * x * x * fe_inv (2 * y) mod secp256k1_p;
          x3 = fe_sub (lam * lam) (2 * x);
          y3 = fe_sub (lam * fe_sub x x3) y
      in Affine x3 y3)"

fun point_add :: "curve_point \<Rightarrow> curve_point \<Rightarrow> curve_point" where
  "point_add Point_at_infinity Q = Q"
| "point_add P Point_at_infinity = P"
| "point_add (Affine x1 y1) (Affine x2 y2) =
     (if x1 = x2 then
        (if (y1 + y2) mod secp256k1_p = 0 then Point_at_infinity else point_double x1 y1)
      else
        (let lam = fe_sub y2 y1 * fe_inv (fe_sub x2 x1) mod secp256k1_p;
             x3 = fe_sub (lam * lam) (x1 + x2);
             y3 = fe_sub (lam * fe_sub x1 x3) y1
         in Affine x3 y3))"

fun point_mul :: "nat \<Rightarrow> curve_point \<Rightarrow> curve_point" where
  "point_mul 0 P = Point_at_infinity"
| "point_mul (Suc k) P = point_add P (point_mul k P)"

text \<open>The logical point a group element of the library stands for.\<close>

definition point_of_ge :: "secp256k1_ge \<Rightarrow> curve_point" where
  "point_of_ge g =
     (if ge_infinity g then Point_at_infinity
      else Affine (ge_x g mod secp256k1_p) (ge_y g mod secp256k1_p))"

text \<open>A valid public point: not the identity, and on the curve.\<close>

definition on_curve :: "secp256k1_ge \<Rightarrow> bool" where
  "on_curve g =
     (\<not> ge_infinity g \<and>
      (ge_y g * ge_y g) mod secp256k1_p = (ge_x g * ge_x g * ge_x g + 7) mod secp256k1_p)"

text \<open>
  Modelled from the spec: the contract of \<open>secp256k1_ecmult_const\<close> and
  \<open>secp256k1_ge_set_gej\<close>, both absent from \<^verbatim>\<open>src/\<close> (``compute the group-element
  scalar multiple'', ``convert the projective result to affine coordinates''). For a valid
  point and a scalar in \<open>[1, n-1]\<close>, multiplying and converting to affine form yields a group
  element that stands for the reference multiple. The internal representation of its
  coordinates is left open.
\<close>

definition kernel_contract :: "kernel \<Rightarrow> bool" where
  "kernel_contract K =
     (\<forall>pt s. on_curve pt \<and> 0 < s \<and> s < secp256k1_n \<longrightarrow>
        point_of_ge (secp256k1_ge_set_gej K (secp256k1_ecmult_const K pt s)) =
        point_mul s (point_of_ge pt))"

text \<open>
  Modelled from the spec: a stand-in for \<open>secp256k1_pubkey_load\<close>,
  \<open>secp256k1_ecmult_const\<close> and \<open>secp256k1_ge_set_gej\<close>, absent from \<^verbatim>\<open>src/\<close>, used
  to run the routine on concrete inputs. Loading reads the two coordinates from the key
  object; multiplication returns the reference multiple in Jacobian form with \<open>z = 1\<close>;
  conversion divides by the powers of \<open>z\<close>. It meets the contract
  (\<open>ref_kernel_contract\<close> below); nothing is claimed about how the library computes.
  Its context object is one byte: 1 for a handler that comes back, anything else for the
  default handler.
\<close>

definition ref_context_of :: "byte list \<Rightarrow> secp256k1_context" where
  "ref_context_of bs = \<lparr>illegal_callback = (if bs = [1] then Cb_return else Cb_abort)\<rparr>"

definition ref_pubkey_load :: "secp256k1_pubkey \<Rightarrow> secp256k1_ge" where
  "ref_pubkey_load pk =
     \<lparr>ge_x = be_nat (take 32 (data pk)), ge_y = be_nat (take 32 (drop 32 (data pk))),
      ge_infinity = False\<rparr>"

definition ref_ecmult_const :: "secp256k1_ge \<Rightarrow> secp256k1_scalar \<Rightarrow> secp256k1_gej" where
  "ref_ecmult_const pt s =
     (case point_mul s (point_of_ge pt) of
        Point_at_infinity \<Rightarrow> \<lparr>gej_x = 0, gej_y = 0, gej_z = 0, gej_infinity = True\<rparr>
      | Affine x y \<Rightarrow> \<lparr>gej_x = x, gej_y = y, gej_z = 1, gej_infinity = False\<rparr>)"

definition ref_ge_set_gej :: "secp256k1_gej \<Rightarrow> secp256k1_ge" where
  "ref_ge_set_gej a =
     (let zi = fe_inv (gej_z a);
          zi2 = zi * zi mod secp256k1_p;
          zi3 = zi2 * zi mod secp256k1_p
      in \<lparr>ge_x = gej_x a * zi2 mod secp256k1_p, ge_y = gej_y a * zi3 mod secp256k1_p,
          ge_infinity = gej_infinity a\<rparr>)"

definition ref_kernel :: kernel where
  "ref_kernel =
     \<lparr>context_size = 1,
      context_of = ref_context_of,
      secp256k1_pubkey_load = ref_pubkey_load,
      secp256k1_ecmult_const = ref_ecmult_const,
      secp256k1_ge_set_gej = ref_ge_set_gej\<rparr>"

text \<open>The integer value of the 32-byte scalar argument.\<close>

definition scalar_value :: "byte list \<Rightarrow> nat" where
  "scalar_value sc = be_nat (take 32 sc)"

text \<open>
  The group element the routine holds after multiplication and conversion, and the two
  byte strings it copies out: the encodings of the canonical coordinates.
\<close>

definition result_ge :: "kernel \<Rightarrow> secp256k1_pubkey \<Rightarrow> byte list \<Rightarrow> secp256k1_ge" where
  "result_ge K pk sc =
     secp256k1_ge_set_gej K
       (secp256k1_ecmult_const K (secp256k1_pubkey_load K pk) (scalar_value sc))"

definition result_x :: "kernel \<Rightarrow> secp256k1_pubkey \<Rightarrow> byte list \<Rightarrow> byte list" where
  "result_x K pk sc = be32 (ge_x (result_ge K pk sc) mod secp256k1_p)"

definition result_y :: "kernel \<Rightarrow> secp256k1_pubkey \<Rightarrow> byte list \<Rightarrow> byte list" where
  "result_y K pk sc = be32 (ge_y (result_ge K pk sc) mod secp256k1_p)"

text \<open>The events of a call that passes the argument checks and rejects the scalar.\<close>

definition rejected_events :: "byte list \<Rightarrow> event list" where
  "rejected_events sc =
     [Ev_pubkey_load, Ev_scalar_set_b32] @
     (if secp256k1_n \<le> scalar_value sc then [] else [Ev_scalar_is_zero]) @
     [Ev_scalar_clear]"

text \<open>The events of a call that passes the argument checks and accepts the scalar.\<close>

definition accepted_events :: "kernel \<Rightarrow> secp256k1_pubkey \<Rightarrow> byte list \<Rightarrow> event list" where
  "accepted_events K pk sc =
     [Ev_pubkey_load, Ev_scalar_set_b32, Ev_scalar_is_zero,
      Ev_ecmult_const (secp256k1_pubkey_load K pk) (scalar_value sc), Ev_ge_set_gej,
      Ev_fe_normalize Coord_x, Ev_fe_normalize Coord_y,
      Ev_fe_get_b32 Coord_x, Ev_fe_get_b32 Coord_y,
      Ev_memcpy Coord_x, Ev_memcpy Coord_y, Ev_scalar_clear]"

text \<open>The first failed check, by the order of the four checks in the source.\<close>

definition first_failed_check :: "frame \<Rightarrow> string option" where
  "first_failed_check m =
     (if x_res m = None then Some ''x_res != NULL''
      else if y_res m = None then Some ''y_res != NULL''
      else if point m = None then Some ''point != NULL''
      else if scalar m = None then Some ''scalar != NULL''
      else None)"

text \<open>
  An output region (32 bytes at \<open>a\<close>) that overlaps none of the inputs of a frame: the
  scalar buffer, the key object and the context object.
\<close>

definition clear_of_inputs :: "kernel \<Rightarrow> frame \<Rightarrow> addr \<Rightarrow> bool" where
  "clear_of_inputs K m a =
     ((\<forall>sa. scalar m = Some sa \<longrightarrow> separate a 32 sa 32) \<and>
      (\<forall>pa. point m = Some pa \<longrightarrow> separate a 32 pa 64) \<and>
      (\<forall>c. ctx m = Some c \<longrightarrow> separate a 32 c (context_size K)))"

text \<open>The exit the macro takes once the handler has been called.\<close>

definition exit_after_handler :: "secp256k1_context \<Rightarrow> exit" where
  "exit_after_handler c =
     (case illegal_callback c of Cb_abort \<Rightarrow> Exit_abort | Cb_return \<Rightarrow> Exit_return 0)"

text \<open>The events a call has added to the trace.\<close>

definition new_events :: "frame \<Rightarrow> frame \<Rightarrow> event list" where
  "new_events m m' = drop (length (trace m)) (trace m')"

text \<open>
  The events of lines 26 to 38: multiplication, conversion to affine form, normalisation,
  serialisation and the two copies.
\<close>

fun pipeline_event :: "event \<Rightarrow> bool" where
  "pipeline_event (Ev_ecmult_const pt s) = True"
| "pipeline_event Ev_ge_set_gej = True"
| "pipeline_event (Ev_fe_normalize c) = True"
| "pipeline_event (Ev_fe_get_b32 c) = True"
| "pipeline_event (Ev_memcpy c) = True"
| "pipeline_event e = False"

text \<open>A reference point is canonical when its coordinates are below the prime.\<close>

fun canonical :: "curve_point \<Rightarrow> bool" where
  "canonical Point_at_infinity = True"
| "canonical (Affine x y) = (x < secp256k1_p \<and> y < secp256k1_p)"

subsection \<open>Concrete inputs\<close>

text \<open>
  The standard base point of the curve as a 64-byte key object (\<open>x\<close>, then \<open>y\<close>), four
  scalars (zero, one, the group order, the group order less one), and a call frame around
  them. Its memory holds the one-byte context at address 0, the key object at 64, the
  scalar at 128 and \<open>0xAA\<close> everywhere else; \<^verbatim>\<open>x_res\<close> is 192 and \<^verbatim>\<open>y_res\<close> is 256. The
  local \<^verbatim>\<open>s\<close> starts with the arbitrary content 7.
\<close>

definition base_point_x :: nat where
  "base_point_x = 0x79BE667EF9DCBBAC55A06295CE870B07029BFCDB2DCE28D959F2815B16F81798"

definition base_point_y :: nat where
  "base_point_y = 0x483ADA7726A3C4655DA4FBFC0E1108A8FD17B448A68554199C47D08FFB10D4B8"

definition base_point_x_bytes :: "byte list" where
  "base_point_x_bytes =
     [0x79, 0xBE, 0x66, 0x7E, 0xF9, 0xDC, 0xBB, 0xAC, 0x55, 0xA0, 0x62, 0x95, 0xCE, 0x87,
      0x0B, 0x07, 0x02, 0x9B, 0xFC, 0xDB, 0x2D, 0xCE, 0x28, 0xD9, 0x59, 0xF2, 0x81, 0x5B,
      0x16, 0xF8, 0x17, 0x98]"

definition base_point_y_bytes :: "byte list" where
  "base_point_y_bytes =
     [0x48, 0x3A, 0xDA, 0x77, 0x26, 0xA3, 0xC4, 0x65, 0x5D, 0xA4, 0xFB, 0xFC, 0x0E, 0x11,
      0x08, 0xA8, 0xFD, 0x17, 0xB4, 0x48, 0xA6, 0x85, 0x54, 0x19, 0x9C, 0x47, 0xD0, 0x8F,
      0xFB, 0x10, 0xD4, 0xB8]"

definition base_point :: secp256k1_pubkey where
  "base_point = \<lparr>data = base_point_x_bytes @ base_point_y_bytes\<rparr>"

definition scalar_zero :: "byte list" where
  "scalar_zero = replicate 32 0"

definition scalar_one :: "byte list" where
  "scalar_one = replicate 31 0 @ [1]"

definition scalar_n :: "byte list" where
  "scalar_n =
     [0xFF, 0xFF, 0xFF, 0xFF, 0xFF, 0xFF, 0xFF, 0xFF, 0xFF, 0xFF, 0xFF, 0xFF, 0xFF, 0xFF,
      0xFF, 0xFE, 0xBA, 0xAE, 0xDC, 0xE6, 0xAF, 0x48, 0xA0, 0x3B, 0xBF, 0xD2, 0x5E, 0x8C,
      0xD0, 0x36, 0x41, 0x41]"

definition scalar_n_minus_1 :: "byte list" where
  "scalar_n_minus_1 =
     [0xFF, 0xFF, 0xFF, 0xFF, 0xFF, 0xFF, 0xFF, 0xFF, 0xFF, 0xFF, 0xFF, 0xFF, 0xFF, 0xFF,
      0xFF, 0xFE, 0xBA, 0xAE, 0xDC, 0xE6, 0xAF, 0x48, 0xA0, 0x3B, 0xBF, 0xD2, 0x5E, 0x8C,
      0xD0, 0x36, 0x41, 0x40]"

definition context_byte :: "callback \<Rightarrow> byte" where
  "context_byte cb = (case cb of Cb_abort \<Rightarrow> 0 | Cb_return \<Rightarrow> 1)"

definition call_memory :: "callback \<Rightarrow> byte list \<Rightarrow> memory" where
  "call_memory cb sc =
     store_bytes
       (store_bytes (store_bytes (\<lambda>a. 0xAA) 0 [context_byte cb]) 64
          (base_point_x_bytes @ base_point_y_bytes))
       128 sc"

definition call_frame :: "callback \<Rightarrow> byte list \<Rightarrow> frame" where
  "call_frame cb sc =
     \<lparr>mem = call_memory cb sc, ctx = Some 0, x_res = Some 192, y_res = Some 256,
      point = Some 64, scalar = Some 128, local_s = 7, trace = []\<rparr>"

text \<open>
  A second stand-in that meets the contract but hands back denormalised coordinates: the
  representation of \<open>x\<close> is one prime too large, that of \<open>y\<close> two.
\<close>

definition denormalised_kernel :: kernel where
  "denormalised_kernel =
     ref_kernel\<lparr>secp256k1_ge_set_gej :=
       (\<lambda>a. let g = ref_ge_set_gej a
            in g\<lparr>ge_x := ge_x g + secp256k1_p, ge_y := ge_y g + 2 * secp256k1_p\<rparr>)\<rparr>"

section \<open>Reading and writing memory\<close>

lemma load_bytes_length: "length (load_bytes h a n) = n"
  by (simp add: load_bytes_def)

lemma store_bytes_outside: "i < a \<or> a + length bs \<le> i \<Longrightarrow> store_bytes h a bs i = h i"
  by (auto simp add: store_bytes_def)

lemma load_bytes_store_same: "length bs = n \<Longrightarrow> load_bytes (store_bytes h a bs) a n = bs"
  by (rule nth_equalityI) (simp_all add: load_bytes_def store_bytes_def)

lemma load_bytes_store_separate:
  "separate a n b (length bs) \<Longrightarrow> load_bytes (store_bytes h b bs) a n = load_bytes h a n"
  by (auto simp add: load_bytes_def store_bytes_def separate_def)

section \<open>The ways through the routine\<close>

lemma be32_length: "length (be32 v) = 32"
  by (simp add: be32_def)

lemma memcpy_be32: "memcpy h dst (be32 v) 32 = store_bytes h dst (be32 v)"
  by (simp add: memcpy_def be32_length)

lemma scalar_set_b32_eq:
  "secp256k1_scalar_set_b32 sc =
     (scalar_value sc mod secp256k1_n, if secp256k1_n \<le> scalar_value sc then 1 else 0)"
  by (simp add: secp256k1_scalar_set_b32_def scalar_value_def)

text \<open>A scalar that is zero or not below the group order: nothing but the clear happens.\<close>

lemma body_rejected:
  assumes "scalar_value (load_bytes (mem m) sa 32) = 0 \<or>
           secp256k1_n \<le> scalar_value (load_bytes (mem m) sa 32)"
  shows "scalar_mul_body K m xa ya pa sa =
           (Exit_return 0,
            m\<lparr>local_s := 0, trace := trace m @ rejected_events (load_bytes (mem m) sa 32)\<rparr>)"
proof (cases "secp256k1_n \<le> scalar_value (load_bytes (mem m) sa 32)")
  case True
  then show ?thesis
    by (simp add: scalar_mul_body_def scalar_set_b32_eq log_event_def rejected_events_def
        secp256k1_scalar_clear_def)
next
  case False
  with assms have "scalar_value (load_bytes (mem m) sa 32) = 0" by simp
  with False show ?thesis
    by (simp add: scalar_mul_body_def scalar_set_b32_eq log_event_def rejected_events_def
        secp256k1_scalar_clear_def secp256k1_scalar_is_zero_def)
qed

text \<open>A scalar in \<open>[1, n-1]\<close>: the full pipeline runs and both regions are written.\<close>

lemma body_accepted:
  assumes "0 < scalar_value (load_bytes (mem m) sa 32)"
    and "scalar_value (load_bytes (mem m) sa 32) < secp256k1_n"
  shows "scalar_mul_body K m xa ya pa sa =
           (Exit_return 1,
            m\<lparr>mem :=
                store_bytes
                  (store_bytes (mem m) xa
                     (result_x K (pubkey_at (mem m) pa) (load_bytes (mem m) sa 32)))
                  ya (result_y K (pubkey_at (mem m) pa) (load_bytes (mem m) sa 32)),
              local_s := 0,
              trace := trace m @
                accepted_events K (pubkey_at (mem m) pa) (load_bytes (mem m) sa 32)\<rparr>)"
  using assms
  by (simp add: scalar_mul_body_def scalar_set_b32_eq log_event_def accepted_events_def
      secp256k1_scalar_clear_def secp256k1_scalar_is_zero_def Let_def result_x_def
      result_y_def result_ge_def secp256k1_fe_normalize_def secp256k1_fe_get_b32_def
      memcpy_be32)

text \<open>With four addresses behind the pointers, the routine is its body.\<close>

lemma all_args_present:
  assumes "x_res m = Some xa" and "y_res m = Some ya" and "point m = Some pa"
    and "scalar m = Some sa"
  shows "secp256k1_pubkey_scalar_mul K m = scalar_mul_body K m xa ya pa sa"
  using assms by (simp add: secp256k1_pubkey_scalar_mul_def ARG_CHECK_def)

lemma objects_present:
  assumes "point_object m = Some pk" and "scalar_bytes m = Some sc"
  obtains pa sa where "point m = Some pa" and "scalar m = Some sa"
    and "pk = pubkey_at (mem m) pa" and "sc = load_bytes (mem m) sa 32"
  using assms by (auto simp add: point_object_def scalar_bytes_def)

lemma call_rejected:
  assumes "x_res m = Some xa" and "y_res m = Some ya" and "point_object m = Some pk"
    and "scalar_bytes m = Some sc"
    and "scalar_value sc = 0 \<or> secp256k1_n \<le> scalar_value sc"
  shows "secp256k1_pubkey_scalar_mul K m =
           (Exit_return 0, m\<lparr>local_s := 0, trace := trace m @ rejected_events sc\<rparr>)"
proof -
  obtain pa sa where "point m = Some pa" and "scalar m = Some sa"
    and "pk = pubkey_at (mem m) pa" and "sc = load_bytes (mem m) sa 32"
    using objects_present [OF assms(3,4)] by blast
  then show ?thesis
    using assms(1,2,5) by (simp add: all_args_present body_rejected)
qed

lemma call_accepted:
  assumes "x_res m = Some xa" and "y_res m = Some ya" and "point_object m = Some pk"
    and "scalar_bytes m = Some sc"
    and "0 < scalar_value sc" and "scalar_value sc < secp256k1_n"
  shows "secp256k1_pubkey_scalar_mul K m =
           (Exit_return 1,
            m\<lparr>mem := store_bytes (store_bytes (mem m) xa (result_x K pk sc)) ya
                       (result_y K pk sc),
              local_s := 0,
              trace := trace m @ accepted_events K pk sc\<rparr>)"
proof -
  obtain pa sa where "point m = Some pa" and "scalar m = Some sa"
    and "pk = pubkey_at (mem m) pa" and "sc = load_bytes (mem m) sa 32"
    using objects_present [OF assms(3,4)] by blast
  then show ?thesis
    using assms(1,2,5,6) by (simp add: all_args_present body_accepted)
qed

lemma arg_missing:
  assumes "first_failed_check m = Some cond" and "ctx m = Some c"
  shows "secp256k1_pubkey_scalar_mul K m =
           (exit_after_handler (context_at K (mem m) c),
            m\<lparr>trace := trace m @ [Ev_illegal_callback cond]\<rparr>)"
  using assms
  by (auto simp add: secp256k1_pubkey_scalar_mul_def ARG_CHECK_def first_failed_check_def
      exit_after_handler_def log_event_def split: if_splits option.splits callback.splits)

lemma arg_missing_null_context:
  assumes "first_failed_check m = Some cond" and "ctx m = None"
  shows "secp256k1_pubkey_scalar_mul K m = (Exit_undefined, m)"
  using assms
  by (auto simp add: secp256k1_pubkey_scalar_mul_def ARG_CHECK_def first_failed_check_def
      split: if_splits option.splits)

lemma first_failed_check_None:
  "first_failed_check m = None \<longleftrightarrow>
     (\<exists>xa ya pk sc. x_res m = Some xa \<and> y_res m = Some ya \<and> point_object m = Some pk \<and>
        scalar_bytes m = Some sc)"
  by (auto simp add: first_failed_check_def point_object_def scalar_bytes_def)

text \<open>Every call takes exactly one of the four ways.\<close>

lemma routine_cases:
  obtains
    (undefined) cond where
      "first_failed_check m = Some cond" "ctx m = None"
      "secp256k1_pubkey_scalar_mul K m = (Exit_undefined, m)"
  | (missing) cond c where
      "first_failed_check m = Some cond" "ctx m = Some c"
      "secp256k1_pubkey_scalar_mul K m =
         (exit_after_handler (context_at K (mem m) c),
          m\<lparr>trace := trace m @ [Ev_illegal_callback cond]\<rparr>)"
  | (rejected) xa ya pk sc where
      "x_res m = Some xa" "y_res m = Some ya" "point_object m = Some pk"
      "scalar_bytes m = Some sc"
      "scalar_value sc = 0 \<or> secp256k1_n \<le> scalar_value sc"
      "secp256k1_pubkey_scalar_mul K m =
         (Exit_return 0, m\<lparr>local_s := 0, trace := trace m @ rejected_events sc\<rparr>)"
  | (accepted) xa ya pk sc where
      "x_res m = Some xa" "y_res m = Some ya" "point_object m = Some pk"
      "scalar_bytes m = Some sc"
      "0 < scalar_value sc" "scalar_value sc < secp256k1_n"
      "secp256k1_pubkey_scalar_mul K m =
         (Exit_return 1,
          m\<lparr>mem := store_bytes (store_bytes (mem m) xa (result_x K pk sc)) ya
                     (result_y K pk sc),
            local_s := 0,
            trace := trace m @ accepted_events K pk sc\<rparr>)"
proof (cases "first_failed_check m")
  case (Some cond)
  then show ?thesis
    using undefined missing arg_missing arg_missing_null_context
    by (cases "ctx m") blast+
next
  case None
  then obtain xa ya pk sc where args:
    "x_res m = Some xa" "y_res m = Some ya" "point_object m = Some pk"
    "scalar_bytes m = Some sc"
    unfolding first_failed_check_None by blast
  show ?thesis
  proof (cases "scalar_value sc = 0 \<or> secp256k1_n \<le> scalar_value sc")
    case True
    then show ?thesis
      using rejected [OF args] call_rejected [OF args] by blast
  next
    case False
    then have "0 < scalar_value sc" "scalar_value sc < secp256k1_n" by simp_all
    then show ?thesis
      using accepted [OF args] call_accepted [OF args] by blast
  qed
qed

section \<open>Evaluating the concrete inputs\<close>

lemma be_nat_Nil: "be_nat [] = 0"
  by (simp add: be_nat_def)

lemma be_nat_snoc: "be_nat (bs @ [b]) = be_nat bs * 256 + unat b"
  by (simp add: be_nat_def)

lemma be_nat_zeros: "be_nat (replicate k 0) = 0"
  unfolding be_nat_def by (induction k) simp_all

lemma scalar_value_zero: "scalar_value scalar_zero = 0"
  by (simp add: scalar_value_def scalar_zero_def be_nat_zeros)

lemma scalar_value_one: "scalar_value scalar_one = 1"
  by (simp add: scalar_value_def scalar_one_def be_nat_snoc be_nat_zeros)

lemma scalar_value_n: "scalar_value scalar_n = secp256k1_n"
  by (simp add: scalar_value_def scalar_n_def be_nat_def secp256k1_n_def)

lemma scalar_value_n_minus_1: "scalar_value scalar_n_minus_1 = secp256k1_n - 1"
  by (simp add: scalar_value_def scalar_n_minus_1_def be_nat_def secp256k1_n_def)

lemma scalar_lengths:
  "length scalar_zero = 32" "length scalar_one = 32" "length scalar_n = 32"
  "length scalar_n_minus_1 = 32"
  by (simp_all add: scalar_zero_def scalar_one_def scalar_n_def scalar_n_minus_1_def)

lemma base_point_lengths:
  "length base_point_x_bytes = 32" "length base_point_y_bytes = 32"
  by (simp_all add: base_point_x_bytes_def base_point_y_bytes_def)

text \<open>What the pointers of the concrete frame point to.\<close>

lemma call_frame_pointers:
  "ctx (call_frame cb sc) = Some 0" "x_res (call_frame cb sc) = Some 192"
  "y_res (call_frame cb sc) = Some 256" "point (call_frame cb sc) = Some 64"
  "scalar (call_frame cb sc) = Some 128" "mem (call_frame cb sc) = call_memory cb sc"
  by (simp_all add: call_frame_def)

lemma call_memory_scalar: "length sc = 32 \<Longrightarrow> load_bytes (call_memory cb sc) 128 32 = sc"
  by (simp add: call_memory_def load_bytes_store_same)

lemma call_memory_point:
  "load_bytes (call_memory cb sc) 64 64 = base_point_x_bytes @ base_point_y_bytes"
  by (simp add: call_memory_def load_bytes_store_same load_bytes_store_separate
      separate_def base_point_lengths)

lemma call_memory_context: "load_bytes (call_memory cb sc) 0 (Suc 0) = [context_byte cb]"
  by (simp add: call_memory_def load_bytes_store_same load_bytes_store_separate
      separate_def base_point_lengths)

lemma call_memory_elsewhere: "160 \<le> i \<Longrightarrow> length sc = 32 \<Longrightarrow> call_memory cb sc i = 0xAA"
  by (simp add: call_memory_def store_bytes_def base_point_lengths)

lemma call_frame_args:
  "x_res (call_frame cb sc) = Some 192" "y_res (call_frame cb sc) = Some 256"
  "point_object (call_frame cb sc) = Some base_point"
  "length sc = 32 \<Longrightarrow> scalar_bytes (call_frame cb sc) = Some sc"
  by (simp_all add: call_frame_pointers point_object_def scalar_bytes_def pubkey_at_def
      call_memory_point call_memory_scalar base_point_def)

lemma call_memory_handler:
  "context_at ref_kernel (call_memory cb sc) 0 = \<lparr>illegal_callback = cb\<rparr>"
  by (cases cb)
    (simp_all add: context_at_def ref_kernel_def call_memory_context ref_context_of_def
      context_byte_def)

lemma call_frame_context:
  "context_at ref_kernel (mem (call_frame cb sc)) 0 = \<lparr>illegal_callback = cb\<rparr>"
  by (simp add: call_frame_pointers call_memory_handler)

section \<open>Big-endian encoding\<close>

lemma unat_byte_less: "unat (b :: byte) < 256"
  using unsigned_less [where 'a = nat, of b] by simp

lemma be_nat_digit:
  "i < length bs \<Longrightarrow> (of_nat (be_nat bs div 256 ^ (length bs - 1 - i)) :: byte) = bs ! i"
proof (induction bs rule: rev_induct)
  case Nil
  then show ?case by simp
next
  case (snoc b bs)
  show ?case
  proof (cases "i < length bs")
    case True
    then have e: "length (bs @ [b]) - 1 - i = Suc (length bs - 1 - i)" by simp
    have "(be_nat bs * 256 + unat b) div 256 ^ Suc (length bs - 1 - i) =
          (be_nat bs * 256 + unat b) div 256 div 256 ^ (length bs - 1 - i)"
      by (simp add: div_mult2_eq)
    also have "(be_nat bs * 256 + unat b) div 256 = be_nat bs"
      using unat_byte_less [of b] by simp
    finally show ?thesis
      using True snoc.IH by (simp only: e be_nat_snoc nth_append if_True)
  next
    case False
    with snoc.prems have i: "i = length bs" by simp
    have z: "(256 :: byte) = 0"
      by simp
    have "(of_nat (be_nat bs * 256 + unat b) :: byte) = of_nat (be_nat bs) * 256 + b"
      by simp
    also have "\<dots> = b"
      unfolding z by simp
    finally have "(of_nat (be_nat bs * 256 + unat b) :: byte) = b" .
    then show ?thesis
      by (simp add: i be_nat_snoc)
  qed
qed

lemma be32_be_nat:
  assumes "length bs = 32"
  shows "be32 (be_nat bs) = bs"
proof (rule nth_equalityI)
  show "length (be32 (be_nat bs)) = length bs"
    using assms by (simp add: be32_length)
next
  fix i
  assume "i < length (be32 (be_nat bs))"
  then have i: "i < 32" by (simp add: be32_length)
  then have "be32 (be_nat bs) ! i = of_nat (be_nat bs div 256 ^ (31 - i))"
    by (simp add: be32_def)
  also have "\<dots> = bs ! i"
    using be_nat_digit [of i bs] i assms by simp
  finally show "be32 (be_nat bs) ! i = bs ! i" .
qed

text \<open>Conversely, the encoding of a number below \<open>2\<^sup>2\<^sup>5\<^sup>6\<close> decodes to that number.\<close>

lemma be_nat_digits:
  "be_nat (map (\<lambda>i. (of_nat (v div 256 ^ (k - 1 - i)) :: byte)) [0..<k]) = v mod 256 ^ k"
proof (induction k arbitrary: v)
  case 0
  then show ?case by (simp add: be_nat_Nil)
next
  case (Suc k)
  have front: "map (\<lambda>i. (of_nat (v div 256 ^ (Suc k - 1 - i)) :: byte)) [0..<k] =
               map (\<lambda>i. (of_nat (v div 256 div 256 ^ (k - 1 - i)) :: byte)) [0..<k]"
  proof (rule map_cong [OF refl])
    fix i
    assume "i \<in> set [0..<k]"
    then have "Suc k - 1 - i = Suc (k - 1 - i)" by auto
    then show "(of_nat (v div 256 ^ (Suc k - 1 - i)) :: byte) =
               of_nat (v div 256 div 256 ^ (k - 1 - i))"
      by (simp add: div_mult2_eq)
  qed
  have last: "unat (of_nat v :: byte) = v mod 256"
    by (simp add: unat_of_nat)
  have "map (\<lambda>i. (of_nat (v div 256 ^ (Suc k - 1 - i)) :: byte)) [0..<Suc k] =
        map (\<lambda>i. (of_nat (v div 256 ^ (Suc k - 1 - i)) :: byte)) [0..<k] @ [of_nat v]"
    by simp
  then have "be_nat (map (\<lambda>i. (of_nat (v div 256 ^ (Suc k - 1 - i)) :: byte)) [0..<Suc k]) =
        be_nat (map (\<lambda>i. (of_nat (v div 256 div 256 ^ (k - 1 - i)) :: byte)) [0..<k]) * 256 +
        v mod 256"
    by (simp only: front last be_nat_snoc)
  also have "\<dots> = (v div 256 mod 256 ^ k) * 256 + v mod 256"
    by (simp only: Suc.IH)
  also have "\<dots> = v mod 256 ^ Suc k"
    by (simp add: mod_mult2_eq)
  finally show ?case .
qed

lemma be_nat_be32: "v < 2 ^ 256 \<Longrightarrow> be_nat (be32 v) = v"
proof -
  assume v: "v < 2 ^ 256"
  have "be_nat (be32 v) = v mod 256 ^ 32"
    using be_nat_digits [of v 32] by (simp add: be32_def)
  moreover have "(256::nat) ^ 32 = 2 ^ 256"
    by simp
  ultimately show ?thesis
    using v by simp
qed

section \<open>The reference kernel\<close>

lemma secp256k1_p_value: "secp256k1_p = 2 ^ 256 - 2 ^ 32 - 977"
  by (simp add: secp256k1_p_def)

lemma secp256k1_n_below_p: "secp256k1_n < secp256k1_p" "secp256k1_p < 2 ^ 256"
  by (simp_all add: secp256k1_p_def secp256k1_n_def)

lemma p_gt_1: "1 < secp256k1_p"
  by (simp add: secp256k1_p_def)

lemma fe_pow_one: "b = 1 \<Longrightarrow> fe_pow b e = 1"
proof (induction b e rule: fe_pow.induct)
  case (1 b e)
  show ?case
  proof (cases "e = 0")
    case True
    then show ?thesis by (simp add: fe_pow.simps)
  next
    case False
    have "b * b mod secp256k1_p = 1"
      using "1.prems" p_gt_1 by simp
    with False "1.IH" have "fe_pow (b * b mod secp256k1_p) (e div 2) = 1"
      by simp
    then show ?thesis
      using False "1.prems" p_gt_1 by (subst fe_pow.simps) (simp add: Let_def)
  qed
qed

lemma fe_inv_one: "fe_inv (Suc 0) = Suc 0"
  by (simp add: fe_inv_def fe_pow_one)

lemma fe_sub_less: "fe_sub a b < secp256k1_p"
  using p_gt_1 by (simp add: fe_sub_def)

lemma canonical_point_add:
  "canonical P \<Longrightarrow> canonical Q \<Longrightarrow> canonical (point_add P Q)"
  by (induction P Q rule: point_add.induct)
    (simp_all add: point_double_def Let_def fe_sub_less)

lemma canonical_point_mul: "canonical P \<Longrightarrow> canonical (point_mul k P)"
  by (induction k) (simp_all add: canonical_point_add)

lemma canonical_point_of_ge: "canonical (point_of_ge g)"
  using p_gt_1 by (simp add: point_of_ge_def)

lemma ref_kernel_roundtrip:
  assumes "canonical Q"
  shows "point_of_ge (ref_ge_set_gej
           (case Q of
              Point_at_infinity \<Rightarrow> \<lparr>gej_x = 0, gej_y = 0, gej_z = 0, gej_infinity = True\<rparr>
            | Affine x y \<Rightarrow> \<lparr>gej_x = x, gej_y = y, gej_z = 1, gej_infinity = False\<rparr>)) = Q"
  using assms p_gt_1
  by (cases Q) (simp_all add: ref_ge_set_gej_def point_of_ge_def fe_inv_one Let_def)

lemma ref_kernel_result:
  "point_of_ge (ref_ge_set_gej (ref_ecmult_const pt s)) = point_mul s (point_of_ge pt)"
  unfolding ref_ecmult_const_def
  by (rule ref_kernel_roundtrip) (simp add: canonical_point_mul canonical_point_of_ge)

lemma ref_kernel_contract: "kernel_contract ref_kernel"
  by (simp add: kernel_contract_def ref_kernel_def ref_kernel_result)

lemma denormalised_kernel_contract: "kernel_contract denormalised_kernel"
proof -
  have "point_of_ge (g\<lparr>ge_x := ge_x g + secp256k1_p, ge_y := ge_y g + 2 * secp256k1_p\<rparr>) =
        point_of_ge g" for g
    by (simp add: point_of_ge_def)
  then show ?thesis
    by (simp add: kernel_contract_def denormalised_kernel_def ref_kernel_def Let_def
        ref_kernel_result)
qed

lemma base_point_loaded:
  "ref_pubkey_load base_point =
     \<lparr>ge_x = base_point_x, ge_y = base_point_y, ge_infinity = False\<rparr>"
  by (simp add: ref_pubkey_load_def base_point_def base_point_x_bytes_def
      base_point_y_bytes_def be_nat_def base_point_x_def base_point_y_def)

lemma mod_certificate: "a = q * m + r \<Longrightarrow> r < m \<Longrightarrow> a mod m = (r::nat)"
  by simp

lemma base_point_on_curve: "on_curve (ref_pubkey_load base_point)"
proof -
  have "base_point_y * base_point_y mod secp256k1_p =
        32748224938747404814623910738487752935528512903530129802856995983256684603122"
    unfolding base_point_y_def secp256k1_p_def
    by (rule mod_certificate [where q =
      9217920084583157935602994580951900810186344190718383666107426471107247357458])
      simp_all
  moreover have "(base_point_x * base_point_x * base_point_x + 7) mod secp256k1_p =
        32748224938747404814623910738487752935528512903530129802856995983256684603122"
    unfolding base_point_x_def secp256k1_p_def
    by (rule mod_certificate [where q =
      1442042049659660869506300006036683750029629333882594701370927246876626245108445140822412359839636311708589143988241317295940670619760105320846347035878395])
      simp_all
  ultimately show ?thesis
    by (simp add: on_curve_def base_point_loaded)
qed

lemma base_point_canonical:
  "base_point_x mod secp256k1_p = base_point_x" "base_point_y mod secp256k1_p = base_point_y"
  by (simp_all add: base_point_x_def base_point_y_def secp256k1_p_def)

lemma base_point_times_one:
  "point_mul (scalar_value scalar_one) (point_of_ge (ref_pubkey_load base_point)) =
     Affine base_point_x base_point_y"
  by (simp add: scalar_value_one base_point_loaded point_of_ge_def base_point_canonical)

lemma base_point_x_encoding: "be32 base_point_x = base_point_x_bytes"
proof -
  have "be_nat base_point_x_bytes = base_point_x"
    by (simp add: base_point_x_bytes_def be_nat_def base_point_x_def)
  moreover have "length base_point_x_bytes = 32"
    by (simp add: base_point_x_bytes_def)
  ultimately show ?thesis
    using be32_be_nat [of base_point_x_bytes] by simp
qed

lemma base_point_y_encoding: "be32 base_point_y = base_point_y_bytes"
proof -
  have "be_nat base_point_y_bytes = base_point_y"
    by (simp add: base_point_y_bytes_def be_nat_def base_point_y_def)
  moreover have "length base_point_y_bytes = 32"
    by (simp add: base_point_y_bytes_def)
  ultimately show ?thesis
    using be32_be_nat [of base_point_y_bytes] by simp
qed

lemma ref_result_ge:
  "result_ge ref_kernel base_point scalar_one =
     \<lparr>ge_x = base_point_x, ge_y = base_point_y, ge_infinity = False\<rparr>"
  using p_gt_1
  by (simp add: result_ge_def ref_kernel_def ref_ecmult_const_def base_point_times_one
      ref_ge_set_gej_def fe_inv_one Let_def base_point_canonical)

lemma denormalised_result_ge:
  "result_ge denormalised_kernel base_point scalar_one =
     \<lparr>ge_x = base_point_x + secp256k1_p, ge_y = base_point_y + 2 * secp256k1_p,
      ge_infinity = False\<rparr>"
  using p_gt_1
  by (simp add: result_ge_def denormalised_kernel_def ref_kernel_def ref_ecmult_const_def
      base_point_times_one ref_ge_set_gej_def fe_inv_one Let_def base_point_canonical)

section \<open>Auxiliary facts for the claims\<close>

lemma new_events_append: "trace m' = trace m @ evs \<Longrightarrow> new_events m m' = evs"
  by (simp add: new_events_def)

lemma scalar_one_in_range: "0 < scalar_value scalar_one" "scalar_value scalar_one < secp256k1_n"
  by (simp_all add: scalar_value_one secp256k1_n_def)

lemma result_lengths: "length (result_x K pk sc) = 32" "length (result_y K pk sc) = 32"
  by (simp_all add: result_x_def result_y_def be32_length)

lemma ref_result_bytes:
  "result_x ref_kernel base_point scalar_one = base_point_x_bytes"
  "result_y ref_kernel base_point scalar_one = base_point_y_bytes"
  by (simp_all add: result_x_def result_y_def ref_result_ge base_point_canonical
      base_point_x_encoding base_point_y_encoding)

text \<open>Reading back the two regions after the two copies.\<close>

lemma second_copy_read:
  "length ys = 32 \<Longrightarrow> load_bytes (store_bytes (store_bytes h xa xs) ya ys) ya 32 = ys"
  by (simp add: load_bytes_store_same)

lemma first_copy_read:
  "length xs = 32 \<Longrightarrow> length ys = 32 \<Longrightarrow> separate xa 32 ya 32 \<Longrightarrow>
   load_bytes (store_bytes (store_bytes h xa xs) ya ys) xa 32 = xs"
  by (simp add: load_bytes_store_same load_bytes_store_separate)

lemma copies_outside:
  "length xs = 32 \<Longrightarrow> length ys = 32 \<Longrightarrow> i < xa \<or> xa + 32 \<le> i \<Longrightarrow> i < ya \<or> ya + 32 \<le> i \<Longrightarrow>
   store_bytes (store_bytes h xa xs) ya ys i = h i"
  by (simp add: store_bytes_outside)

lemma first_call:
  "secp256k1_pubkey_scalar_mul ref_kernel (call_frame cb scalar_one) =
     (Exit_return 1,
      (call_frame cb scalar_one)
        \<lparr>mem :=
           store_bytes (store_bytes (call_memory cb scalar_one) 192 base_point_x_bytes) 256
             base_point_y_bytes,
         local_s := 0,
         trace := accepted_events ref_kernel base_point scalar_one\<rparr>)"
  using call_accepted
    [where K = ref_kernel, OF call_frame_args(1-3) [of cb scalar_one]
      call_frame_args(4) [OF scalar_lengths(2), of cb] scalar_one_in_range]
  by (simp add: ref_result_bytes call_frame_pointers) (simp add: call_frame_def)

lemma contract_coordinates:
  assumes "kernel_contract K" and "on_curve (secp256k1_pubkey_load K pk)"
    and "0 < scalar_value sc" and "scalar_value sc < secp256k1_n"
    and "point_mul (scalar_value sc) (point_of_ge (secp256k1_pubkey_load K pk)) = Affine x y"
  shows "ge_x (result_ge K pk sc) mod secp256k1_p = x"
    and "ge_y (result_ge K pk sc) mod secp256k1_p = y"
proof -
  have "point_of_ge (result_ge K pk sc) = Affine x y"
    using assms unfolding kernel_contract_def result_ge_def by metis
  then show "ge_x (result_ge K pk sc) mod secp256k1_p = x"
    and "ge_y (result_ge K pk sc) mod secp256k1_p = y"
    by (simp_all add: point_of_ge_def split: if_splits)
qed

lemma zero_after_reduction:
  "scalar_value sc mod secp256k1_n = 0 \<Longrightarrow>
   scalar_value sc = 0 \<or> secp256k1_n \<le> scalar_value sc"
  by (cases "scalar_value sc < secp256k1_n") simp_all

lemma null_x_res_call:
  "secp256k1_pubkey_scalar_mul ref_kernel ((call_frame cb sc)\<lparr>x_res := None\<rparr>) =
     (exit_after_handler \<lparr>illegal_callback = cb\<rparr>,
      (call_frame cb sc)\<lparr>x_res := None, trace := [Ev_illegal_callback ''x_res != NULL'']\<rparr>)"
proof -
  have "first_failed_check ((call_frame cb sc)\<lparr>x_res := None\<rparr>) = Some ''x_res != NULL''"
    by (simp add: first_failed_check_def)
  moreover have "ctx ((call_frame cb sc)\<lparr>x_res := None\<rparr>) = Some 0"
    by (simp add: call_frame_pointers)
  ultimately show ?thesis
    using call_frame_context [of cb sc]
    by (simp add: arg_missing) (simp add: call_frame_def)
qed

lemma load_bytes_constant:
  "(\<And>i. a \<le> i \<Longrightarrow> i < a + n \<Longrightarrow> h i = v) \<Longrightarrow> load_bytes h a n = replicate n v"
  by (rule nth_equalityI) (simp_all add: load_bytes_def)

lemma call_frame_outputs:
  assumes "length sc = 32"
  shows "x_bytes (call_frame cb sc) = Some (replicate 32 0xAA)"
    and "y_bytes (call_frame cb sc) = Some (replicate 32 0xAA)"
  using assms
  by (simp_all add: x_bytes_def y_bytes_def call_frame_pointers load_bytes_constant
      call_memory_elsewhere)

lemma call_frame_missing:
  assumes "first_failed_check m = Some cond" and "ctx m = Some 0"
    and "mem m = call_memory cb sc"
  shows "secp256k1_pubkey_scalar_mul ref_kernel m =
           (exit_after_handler \<lparr>illegal_callback = cb\<rparr>,
            m\<lparr>trace := trace m @ [Ev_illegal_callback cond]\<rparr>)"
  using arg_missing [OF assms(1,2), of ref_kernel] call_frame_context [of cb sc] assms(3)
  by (simp add: call_frame_pointers)

lemma same_nullness:
  "map_option f p = map_option g q \<Longrightarrow> (p = None \<longleftrightarrow> q = None)"
  by (cases p; cases q) simp_all

lemma first_failed_check_cong:
  assumes "point_object m1 = point_object m2" and "scalar_bytes m1 = scalar_bytes m2"
    and "x_res m1 = None \<longleftrightarrow> x_res m2 = None" and "y_res m1 = None \<longleftrightarrow> y_res m2 = None"
  shows "first_failed_check m1 = first_failed_check m2"
proof -
  have "point m1 = None \<longleftrightarrow> point m2 = None"
    using assms(1) unfolding point_object_def by (rule same_nullness)
  moreover have "scalar m1 = None \<longleftrightarrow> scalar m2 = None"
    using assms(2) unfolding scalar_bytes_def by (rule same_nullness)
  ultimately show ?thesis
    using assms(3,4) by (simp add: first_failed_check_def)
qed

lemma ref_context_size: "context_size ref_kernel = Suc 0"
  by (simp add: ref_kernel_def)

text \<open>The frame the first call leaves still holds the same inputs.\<close>

lemma after_first_call:
  "ctx (frame_after ref_kernel (call_frame cb scalar_one)) = Some 0"
  "x_res (frame_after ref_kernel (call_frame cb scalar_one)) = Some 192"
  "y_res (frame_after ref_kernel (call_frame cb scalar_one)) = Some 256"
  "point_object (frame_after ref_kernel (call_frame cb scalar_one)) = Some base_point"
  "scalar_bytes (frame_after ref_kernel (call_frame cb scalar_one)) = Some scalar_one"
  "context_bytes ref_kernel (frame_after ref_kernel (call_frame cb scalar_one)) =
     Some [context_byte cb]"
  "x_bytes (frame_after ref_kernel (call_frame cb scalar_one)) = Some base_point_x_bytes"
  "y_bytes (frame_after ref_kernel (call_frame cb scalar_one)) = Some base_point_y_bytes"
  by (simp_all add: first_call call_frame_pointers point_object_def scalar_bytes_def
      context_bytes_def x_bytes_def y_bytes_def pubkey_at_def base_point_def
      load_bytes_store_separate load_bytes_store_same separate_def base_point_lengths
      call_memory_point call_memory_scalar call_memory_context scalar_lengths
      ref_context_size)

lemma before_first_call:
  "context_bytes ref_kernel (call_frame cb sc) = Some [context_byte cb]"
  by (simp add: context_bytes_def call_frame_pointers call_memory_context ref_context_size)

lemma separate_sym: "separate a n b k \<longleftrightarrow> separate b k a n"
  by (auto simp add: separate_def)

text \<open>An input region that both output regions are clear of keeps its bytes.\<close>

lemma region_kept:
  assumes "length xs = 32" and "length ys = 32"
    and "separate xa 32 a n" and "separate ya 32 a n"
  shows "load_bytes (store_bytes (store_bytes h xa xs) ya ys) a n = load_bytes h a n"
  using assms by (simp add: load_bytes_store_separate separate_sym [of a n])

section \<open>The claims\<close>

text \<open>
  \<^bold>\<open>C1.\<close> Let the kernel meet its contract, let all four pointers be non-null, let the
  loaded point be a valid public point (on the curve, not the identity) and let the integer
  value \<open>s\<close> of the scalar lie in \<open>[1, n-1]\<close>. Then the routine returns 1 and has copied
  the big-endian encodings of the affine coordinates \<open>x\<close> and \<open>y\<close> of \<open>s\<cdot>P\<close>, as the
  reference multiplication \<open>point_mul\<close> computes them, to \<^verbatim>\<open>x_res\<close> and then to
  \<^verbatim>\<open>y_res\<close>; nothing else in memory has changed. So the 32 bytes at \<^verbatim>\<open>y_res\<close> are the
  encoding of \<open>y\<close>, and the 32 bytes at \<^verbatim>\<open>x_res\<close> are the encoding of \<open>x\<close> whenever the
  two output regions do not overlap (where they do, the second copy has overwritten part of
  the first, as the memory equation says). The coordinates are canonical (below the prime)
  and the bytes decode to them. Point and scalar are read before anything is written, so
  the result is that of the inputs as they stood at entry, even when an output region
  overlaps one of them. That \<open>s\<cdot>P\<close> is a finite point is a fact about the curve; it enters
  as the equation that names \<open>x\<close> and \<open>y\<close>.
\<close>

theorem scalar_multiple_written:
  assumes "kernel_contract K"
    and "x_res m = Some xa" and "y_res m = Some ya" and "point_object m = Some pk"
    and "scalar_bytes m = Some sc"
    and "on_curve (secp256k1_pubkey_load K pk)"
    and "0 < scalar_value sc" and "scalar_value sc < secp256k1_n"
    and "point_mul (scalar_value sc) (point_of_ge (secp256k1_pubkey_load K pk)) = Affine x y"
  shows "exit_of K m = Exit_return 1 \<and>
         mem (frame_after K m) = store_bytes (store_bytes (mem m) xa (be32 x)) ya (be32 y) \<and>
         y_bytes (frame_after K m) = Some (be32 y) \<and>
         (separate xa 32 ya 32 \<longrightarrow> x_bytes (frame_after K m) = Some (be32 x)) \<and>
         x < secp256k1_p \<and> y < secp256k1_p \<and>
         be_nat (be32 x) = x \<and> be_nat (be32 y) = y"
proof -
  note coords = contract_coordinates [OF assms(1) assms(6-9)]
  have "result_x K pk sc = be32 x" and "result_y K pk sc = be32 y"
    using coords by (simp_all add: result_x_def result_y_def)
  then have written:
    "exit_of K m = Exit_return 1 \<and>
     mem (frame_after K m) = store_bytes (store_bytes (mem m) xa (be32 x)) ya (be32 y) \<and>
     y_bytes (frame_after K m) = Some (be32 y) \<and>
     (separate xa 32 ya 32 \<longrightarrow> x_bytes (frame_after K m) = Some (be32 x))"
    using assms(2,3)
    by (simp add: call_accepted [OF assms(2-5) assms(7,8)] x_bytes_def y_bytes_def
        second_copy_read first_copy_read be32_length)
  have "0 < secp256k1_p"
    using p_gt_1 by simp
  then have below: "x < secp256k1_p" "y < secp256k1_p"
    using coords [symmetric] by simp_all
  then have "x < 2 ^ 256" and "y < 2 ^ 256"
    using secp256k1_n_below_p(2) by simp_all
  then have "be_nat (be32 x) = x" and "be_nat (be32 y) = y"
    by (simp_all add: be_nat_be32)
  with written below show ?thesis
    by simp
qed

text \<open>
  The contract is met by the reference kernel, and the hypotheses hold for the standard
  base point and the scalar 1: the routine writes the 64 published bytes of the base point.
\<close>

theorem scalar_multiple_written_witness:
  "kernel_contract ref_kernel \<and>
   x_res (call_frame Cb_abort scalar_one) = Some 192 \<and>
   y_res (call_frame Cb_abort scalar_one) = Some 256 \<and>
   point_object (call_frame Cb_abort scalar_one) = Some base_point \<and>
   scalar_bytes (call_frame Cb_abort scalar_one) = Some scalar_one \<and>
   on_curve (secp256k1_pubkey_load ref_kernel base_point) \<and>
   0 < scalar_value scalar_one \<and> scalar_value scalar_one < secp256k1_n \<and>
   point_mul (scalar_value scalar_one)
     (point_of_ge (secp256k1_pubkey_load ref_kernel base_point)) =
     Affine base_point_x base_point_y \<and>
   separate 192 32 256 32 \<and>
   exit_of ref_kernel (call_frame Cb_abort scalar_one) = Exit_return 1 \<and>
   x_bytes (frame_after ref_kernel (call_frame Cb_abort scalar_one)) =
     Some base_point_x_bytes \<and>
   y_bytes (frame_after ref_kernel (call_frame Cb_abort scalar_one)) =
     Some base_point_y_bytes \<and>
   be_nat base_point_x_bytes = base_point_x \<and> be_nat base_point_y_bytes = base_point_y"
proof -
  have load: "secp256k1_pubkey_load ref_kernel = ref_pubkey_load"
    by (simp add: ref_kernel_def)
  have curve: "on_curve (secp256k1_pubkey_load ref_kernel base_point)"
    by (simp add: load base_point_on_curve)
  have mul: "point_mul (scalar_value scalar_one)
      (point_of_ge (secp256k1_pubkey_load ref_kernel base_point)) =
      Affine base_point_x base_point_y"
    by (simp add: load base_point_times_one)
  note args = call_frame_args(1-3) [of Cb_abort scalar_one]
    call_frame_args(4) [OF scalar_lengths(2), of Cb_abort]
  have sep: "separate 192 32 256 32"
    by (simp add: separate_def)
  show ?thesis
    using scalar_multiple_written
      [OF ref_kernel_contract args curve scalar_one_in_range mul]
    by (simp add: ref_kernel_contract args curve scalar_one_in_range mul sep
        base_point_x_encoding base_point_y_encoding)
qed

text \<open>
  \<^bold>\<open>C2\<close> as stated fails on the contract-violation path. With \<^verbatim>\<open>x_res == NULL\<close> the
  routine leaves from the first argument check: the clear of line 42 is not among the
  events, and the storage of the local \<^verbatim>\<open>s\<close>, which held 7 at entry, is not zero at the
  exit, whether the handler comes back (the call returns 0) or ends the process.
\<close>

theorem wipe_skipped_on_null_argument:
  "exit_of ref_kernel ((call_frame Cb_return scalar_one)\<lparr>x_res := None\<rparr>) = Exit_return 0 \<and>
   local_s (frame_after ref_kernel ((call_frame Cb_return scalar_one)\<lparr>x_res := None\<rparr>)) \<noteq> 0 \<and>
   Ev_scalar_clear \<notin>
     set (trace (frame_after ref_kernel ((call_frame Cb_return scalar_one)\<lparr>x_res := None\<rparr>))) \<and>
   exit_of ref_kernel ((call_frame Cb_abort scalar_one)\<lparr>x_res := None\<rparr>) = Exit_abort \<and>
   local_s (frame_after ref_kernel ((call_frame Cb_abort scalar_one)\<lparr>x_res := None\<rparr>)) \<noteq> 0"
  by (simp add: null_x_res_call exit_after_handler_def) (simp add: call_frame_def)

text \<open>
  \<^bold>\<open>C2\<close>, amended. On every exit path behind the four argument checks, success and
  domain-validation failure alike, the routine's internal scalar \<^verbatim>\<open>s\<close> is zero when the
  call returns, whatever its storage held at entry, and the clear is the last thing the
  call does.
\<close>

theorem wipe_after_argument_checks:
  assumes "x_res m = Some xa" and "y_res m = Some ya" and "point m = Some pa"
    and "scalar m = Some sa"
  shows "local_s (frame_after K m) = 0 \<and> last (trace (frame_after K m)) = Ev_scalar_clear \<and>
         (\<exists>r. exit_of K m = Exit_return r)"
  using assms
  by (cases rule: routine_cases [of m K])
    (simp_all add: first_failed_check_def rejected_events_def accepted_events_def)

text \<open>A rejected scalar (zero) and an accepted one (one), both starting from \<open>local_s = 7\<close>.\<close>

theorem wipe_after_argument_checks_witness:
  "x_res (call_frame Cb_abort scalar_zero) = Some 192 \<and>
   y_res (call_frame Cb_abort scalar_zero) = Some 256 \<and>
   point (call_frame Cb_abort scalar_zero) = Some 64 \<and>
   scalar (call_frame Cb_abort scalar_zero) = Some 128 \<and>
   local_s (call_frame Cb_abort scalar_zero) = 7 \<and>
   local_s (frame_after ref_kernel (call_frame Cb_abort scalar_zero)) = 0 \<and>
   last (trace (frame_after ref_kernel (call_frame Cb_abort scalar_zero))) = Ev_scalar_clear \<and>
   local_s (frame_after ref_kernel (call_frame Cb_abort scalar_one)) = 0 \<and>
   last (trace (frame_after ref_kernel (call_frame Cb_abort scalar_one))) = Ev_scalar_clear"
  using
    wipe_after_argument_checks
      [where K = ref_kernel, OF call_frame_pointers(2,3,4,5) [of Cb_abort scalar_zero]]
    wipe_after_argument_checks
      [where K = ref_kernel, OF call_frame_pointers(2,3,4,5) [of Cb_abort scalar_one]]
  by (simp add: call_frame_pointers) (simp add: call_frame_def)

text \<open>
  \<^bold>\<open>C3.\<close> Given non-null arguments, the routine reports failure (returns 0) if and only
  if the integer value of the 32-byte scalar is 0 or at least the group order \<open>n\<close>, and
  returns 1 otherwise. This holds for every point and every kernel.
\<close>

theorem return_value_decided_by_scalar_range:
  assumes "x_res m = Some xa" and "y_res m = Some ya" and "point_object m = Some pk"
    and "scalar_bytes m = Some sc"
  shows "exit_of K m =
           Exit_return (if scalar_value sc = 0 \<or> secp256k1_n \<le> scalar_value sc then 0 else 1)"
proof (cases "scalar_value sc = 0 \<or> secp256k1_n \<le> scalar_value sc")
  case True
  then show ?thesis
    by (simp add: call_rejected [OF assms])
next
  case False
  then have "0 < scalar_value sc" and "scalar_value sc < secp256k1_n" by simp_all
  then show ?thesis
    using False by (simp add: call_accepted [OF assms])
qed

text \<open>At the boundary: the scalar \<open>n\<close> fails, the scalar \<open>n - 1\<close> succeeds, zero fails.\<close>

theorem return_value_decided_by_scalar_range_witness:
  "x_res (call_frame Cb_abort scalar_n) = Some 192 \<and>
   y_res (call_frame Cb_abort scalar_n) = Some 256 \<and>
   point_object (call_frame Cb_abort scalar_n) = Some base_point \<and>
   scalar_bytes (call_frame Cb_abort scalar_n) = Some scalar_n \<and>
   scalar_value scalar_n = secp256k1_n \<and>
   exit_of ref_kernel (call_frame Cb_abort scalar_n) = Exit_return 0 \<and>
   scalar_bytes (call_frame Cb_abort scalar_n_minus_1) = Some scalar_n_minus_1 \<and>
   scalar_value scalar_n_minus_1 = secp256k1_n - 1 \<and>
   exit_of ref_kernel (call_frame Cb_abort scalar_n_minus_1) = Exit_return 1 \<and>
   scalar_bytes (call_frame Cb_abort scalar_zero) = Some scalar_zero \<and>
   scalar_value scalar_zero = 0 \<and>
   exit_of ref_kernel (call_frame Cb_abort scalar_zero) = Exit_return 0"
proof -
  note n = call_frame_args(1-3) [of Cb_abort scalar_n]
    call_frame_args(4) [OF scalar_lengths(3), of Cb_abort]
  note n1 = call_frame_args(1-3) [of Cb_abort scalar_n_minus_1]
    call_frame_args(4) [OF scalar_lengths(4), of Cb_abort]
  note z = call_frame_args(1-3) [of Cb_abort scalar_zero]
    call_frame_args(4) [OF scalar_lengths(1), of Cb_abort]
  show ?thesis
    using
      return_value_decided_by_scalar_range
        [where K = ref_kernel, OF n]
      return_value_decided_by_scalar_range
        [where K = ref_kernel, OF n1]
      return_value_decided_by_scalar_range
        [where K = ref_kernel, OF z]
    by (simp add: n n1 z scalar_value_n scalar_value_n_minus_1 scalar_value_zero
        secp256k1_n_def)
qed



text \<open>
  \<^bold>\<open>C5.\<close> On every successful call either coordinate is first normalised and then
  serialised: the events show both normalisations before both serialisations, followed by
  one copy per coordinate. Each copy writes exactly 32 bytes, the big-endian encoding of
  the coordinate's logical value (its representation modulo the prime), \<open>x\<close> to \<^verbatim>\<open>x_res\<close>
  and \<open>y\<close> to \<^verbatim>\<open>y_res\<close>; the region at \<^verbatim>\<open>y_res\<close> then holds the encoding of \<open>y\<close>, and the
  region at \<^verbatim>\<open>x_res\<close> that of \<open>x\<close> when the two regions do not overlap. Hence two kernels
  whose results have the same logical coordinates, in whatever internal representation,
  leave the same memory.
\<close>

theorem canonical_serialisation:
  assumes "x_res m = Some xa" and "y_res m = Some ya" and "point_object m = Some pk"
    and "scalar_bytes m = Some sc"
    and "0 < scalar_value sc" and "scalar_value sc < secp256k1_n"
  shows
    "mem (frame_after K m) =
       store_bytes
         (store_bytes (mem m) xa (be32 (ge_x (result_ge K pk sc) mod secp256k1_p)))
         ya (be32 (ge_y (result_ge K pk sc) mod secp256k1_p)) \<and>
     y_bytes (frame_after K m) = Some (be32 (ge_y (result_ge K pk sc) mod secp256k1_p)) \<and>
     (separate xa 32 ya 32 \<longrightarrow>
        x_bytes (frame_after K m) = Some (be32 (ge_x (result_ge K pk sc) mod secp256k1_p))) \<and>
     length (be32 (ge_x (result_ge K pk sc) mod secp256k1_p)) = 32 \<and>
     length (be32 (ge_y (result_ge K pk sc) mod secp256k1_p)) = 32 \<and>
     new_events m (frame_after K m) =
       [Ev_pubkey_load, Ev_scalar_set_b32, Ev_scalar_is_zero,
        Ev_ecmult_const (secp256k1_pubkey_load K pk) (scalar_value sc), Ev_ge_set_gej,
        Ev_fe_normalize Coord_x, Ev_fe_normalize Coord_y,
        Ev_fe_get_b32 Coord_x, Ev_fe_get_b32 Coord_y,
        Ev_memcpy Coord_x, Ev_memcpy Coord_y, Ev_scalar_clear] \<and>
     (\<forall>K'. ge_x (result_ge K' pk sc) mod secp256k1_p =
             ge_x (result_ge K pk sc) mod secp256k1_p \<and>
           ge_y (result_ge K' pk sc) mod secp256k1_p =
             ge_y (result_ge K pk sc) mod secp256k1_p \<longrightarrow>
           mem (frame_after K' m) = mem (frame_after K m) \<and>
           x_bytes (frame_after K' m) = x_bytes (frame_after K m) \<and>
           y_bytes (frame_after K' m) = y_bytes (frame_after K m))"
  using assms(1,2)
  by (simp add: call_accepted [OF assms] result_x_def result_y_def be32_length
      new_events_append accepted_events_def x_bytes_def y_bytes_def second_copy_read
      first_copy_read)

text \<open>
  The reference kernel and the kernel with denormalised coordinates (representations that
  differ by one and by two primes) write the same 64 bytes.
\<close>

theorem canonical_serialisation_witness:
  "x_res (call_frame Cb_abort scalar_one) = Some 192 \<and>
   y_res (call_frame Cb_abort scalar_one) = Some 256 \<and>
   point_object (call_frame Cb_abort scalar_one) = Some base_point \<and>
   scalar_bytes (call_frame Cb_abort scalar_one) = Some scalar_one \<and>
   0 < scalar_value scalar_one \<and> scalar_value scalar_one < secp256k1_n \<and>
   separate 192 32 256 32 \<and>
   ge_x (result_ge ref_kernel base_point scalar_one) = base_point_x \<and>
   ge_x (result_ge denormalised_kernel base_point scalar_one) = base_point_x + secp256k1_p \<and>
   ge_y (result_ge ref_kernel base_point scalar_one) = base_point_y \<and>
   ge_y (result_ge denormalised_kernel base_point scalar_one) =
     base_point_y + 2 * secp256k1_p \<and>
   x_bytes (frame_after ref_kernel (call_frame Cb_abort scalar_one)) =
     Some base_point_x_bytes \<and>
   y_bytes (frame_after ref_kernel (call_frame Cb_abort scalar_one)) =
     Some base_point_y_bytes \<and>
   x_bytes (frame_after denormalised_kernel (call_frame Cb_abort scalar_one)) =
     Some base_point_x_bytes \<and>
   y_bytes (frame_after denormalised_kernel (call_frame Cb_abort scalar_one)) =
     Some base_point_y_bytes"
proof -
  have same:
    "ge_x (result_ge denormalised_kernel base_point scalar_one) mod secp256k1_p =
       ge_x (result_ge ref_kernel base_point scalar_one) mod secp256k1_p \<and>
     ge_y (result_ge denormalised_kernel base_point scalar_one) mod secp256k1_p =
       ge_y (result_ge ref_kernel base_point scalar_one) mod secp256k1_p"
    by (simp add: ref_result_ge denormalised_result_ge)
  note args = call_frame_args(1-3) [of Cb_abort scalar_one]
    call_frame_args(4) [OF scalar_lengths(2), of Cb_abort]
  have sep: "separate 192 32 256 32"
    by (simp add: separate_def)
  show ?thesis
    using canonical_serialisation [where K = ref_kernel, OF args scalar_one_in_range] same
    by (simp add: args scalar_one_in_range ref_result_ge denormalised_result_ge sep
        base_point_canonical base_point_x_encoding base_point_y_encoding)
qed

text \<open>
  \<^bold>\<open>C6.\<close> The two in-band failure causes look the same to the caller. Of two calls with
  non-null arguments, one with a scalar that is zero after reduction and one with a scalar
  that overflows the group order, both return 0 and both leave memory, hence their two
  output buffers, exactly as it was: return value and buffer contents carry no trace of the
  cause.
\<close>

theorem failure_causes_indistinguishable:
  assumes "x_res m1 = Some xa1" and "y_res m1 = Some ya1" and "point_object m1 = Some pk1"
    and "scalar_bytes m1 = Some sc1"
    and "x_res m2 = Some xa2" and "y_res m2 = Some ya2" and "point_object m2 = Some pk2"
    and "scalar_bytes m2 = Some sc2"
    and "scalar_value sc1 mod secp256k1_n = 0"
    and "secp256k1_n \<le> scalar_value sc2"
  shows "exit_of K1 m1 = Exit_return 0 \<and> exit_of K2 m2 = Exit_return 0 \<and>
         mem (frame_after K1 m1) = mem m1 \<and> mem (frame_after K2 m2) = mem m2 \<and>
         x_bytes (frame_after K1 m1) = x_bytes m1 \<and> y_bytes (frame_after K1 m1) = y_bytes m1 \<and>
         x_bytes (frame_after K2 m2) = x_bytes m2 \<and> y_bytes (frame_after K2 m2) = y_bytes m2"
  using zero_after_reduction [OF assms(9)] assms(10)
  by (simp add: call_rejected [OF assms(1-4)] call_rejected [OF assms(5-8)] x_bytes_def
      y_bytes_def)

text \<open>The scalar zero against the scalar \<open>n\<close>.\<close>

theorem failure_causes_indistinguishable_witness:
  "x_res (call_frame Cb_abort scalar_zero) = Some 192 \<and>
   y_res (call_frame Cb_abort scalar_zero) = Some 256 \<and>
   point_object (call_frame Cb_abort scalar_zero) = Some base_point \<and>
   scalar_bytes (call_frame Cb_abort scalar_zero) = Some scalar_zero \<and>
   x_res (call_frame Cb_abort scalar_n) = Some 192 \<and>
   y_res (call_frame Cb_abort scalar_n) = Some 256 \<and>
   point_object (call_frame Cb_abort scalar_n) = Some base_point \<and>
   scalar_bytes (call_frame Cb_abort scalar_n) = Some scalar_n \<and>
   scalar_value scalar_zero mod secp256k1_n = 0 \<and>
   secp256k1_n \<le> scalar_value scalar_n \<and>
   exit_of ref_kernel (call_frame Cb_abort scalar_zero) = Exit_return 0 \<and>
   exit_of ref_kernel (call_frame Cb_abort scalar_n) = Exit_return 0 \<and>
   x_bytes (frame_after ref_kernel (call_frame Cb_abort scalar_zero)) =
     x_bytes (frame_after ref_kernel (call_frame Cb_abort scalar_n)) \<and>
   y_bytes (frame_after ref_kernel (call_frame Cb_abort scalar_zero)) =
     y_bytes (frame_after ref_kernel (call_frame Cb_abort scalar_n))"
proof -
  have z: "scalar_value scalar_zero mod secp256k1_n = 0"
    by (simp add: scalar_value_zero)
  have n: "secp256k1_n \<le> scalar_value scalar_n"
    by (simp add: scalar_value_n)
  note az = call_frame_args(1-3) [of Cb_abort scalar_zero]
    call_frame_args(4) [OF scalar_lengths(1), of Cb_abort]
  note an = call_frame_args(1-3) [of Cb_abort scalar_n]
    call_frame_args(4) [OF scalar_lengths(3), of Cb_abort]
  show ?thesis
    using failure_causes_indistinguishable
      [where ?K1.0 = ref_kernel and ?K2.0 = ref_kernel, OF az an z n]
    by (simp add: az an z n call_frame_outputs scalar_lengths)
qed

text \<open>
  \<^bold>\<open>C7\<close> as stated fails: a null argument can be a returnable failure of the normal
  return channel. The handler is the caller's to configure. With a handler that comes back,
  the call with \<^verbatim>\<open>scalar == NULL\<close> returns 0 and leaves both output buffers as they were,
  which is exactly what the caller sees from the call with the scalar zero, a
  domain-validation failure.
\<close>

theorem null_argument_returns_like_rejected_scalar:
  "exit_of ref_kernel ((call_frame Cb_return scalar_one)\<lparr>scalar := None\<rparr>) = Exit_return 0 \<and>
   x_bytes (frame_after ref_kernel ((call_frame Cb_return scalar_one)\<lparr>scalar := None\<rparr>)) =
     Some (replicate 32 0xAA) \<and>
   y_bytes (frame_after ref_kernel ((call_frame Cb_return scalar_one)\<lparr>scalar := None\<rparr>)) =
     Some (replicate 32 0xAA) \<and>
   exit_of ref_kernel (call_frame Cb_return scalar_zero) = Exit_return 0 \<and>
   x_bytes (frame_after ref_kernel (call_frame Cb_return scalar_zero)) =
     Some (replicate 32 0xAA) \<and>
   y_bytes (frame_after ref_kernel (call_frame Cb_return scalar_zero)) =
     Some (replicate 32 0xAA)"
proof -
  let ?m = "(call_frame Cb_return scalar_one)\<lparr>scalar := None\<rparr>"
  have "first_failed_check ?m = Some ''scalar != NULL''" "ctx ?m = Some 0"
    "mem ?m = call_memory Cb_return scalar_one"
    by (simp_all add: first_failed_check_def call_frame_pointers)
  note null_call = call_frame_missing [OF this]
  have "x_bytes ?m = x_bytes (call_frame Cb_return scalar_one)"
    "y_bytes ?m = y_bytes (call_frame Cb_return scalar_one)"
    by (simp_all add: x_bytes_def y_bytes_def)
  then have null_out: "x_bytes (frame_after ref_kernel ?m) = Some (replicate 32 0xAA)"
    "y_bytes (frame_after ref_kernel ?m) = Some (replicate 32 0xAA)"
    using call_frame_outputs [OF scalar_lengths(2), of Cb_return]
    by (simp_all add: null_call x_bytes_def y_bytes_def)
  note z = call_frame_args(1-3) [of Cb_return scalar_zero]
    call_frame_args(4) [OF scalar_lengths(1), of Cb_return]
  have rejected: "secp256k1_pubkey_scalar_mul ref_kernel (call_frame Cb_return scalar_zero) =
      (Exit_return 0,
       (call_frame Cb_return scalar_zero)
         \<lparr>local_s := 0, trace := trace (call_frame Cb_return scalar_zero) @
            rejected_events scalar_zero\<rparr>)"
    by (simp add: call_rejected [OF z] scalar_value_zero)
  have rej_out:
    "x_bytes (frame_after ref_kernel (call_frame Cb_return scalar_zero)) =
       Some (replicate 32 0xAA)"
    "y_bytes (frame_after ref_kernel (call_frame Cb_return scalar_zero)) =
       Some (replicate 32 0xAA)"
    using call_frame_outputs [OF scalar_lengths(1), of Cb_return]
    by (simp_all add: rejected x_bytes_def y_bytes_def)
  show ?thesis
    by (simp add: null_out rej_out) (simp add: null_call rejected exit_after_handler_def)
qed

text \<open>
  \<^bold>\<open>C7\<close>, amended. A null output buffer, point or scalar buffer fails one of the four
  checks. With a non-null context the routine then invokes the context's illegal-argument
  handler, once, with the text of the first failed check, and does nothing else: the frame
  is unchanged but for that event. With the default handler the process ends there, so the
  call has no return value; with a handler that comes back the routine returns 0, as it
  does for a rejected scalar. With a null context no handler is reached: the macro reads the
  handler through \<^verbatim>\<open>ctx\<close>, which no check guards.
\<close>

theorem null_argument_invokes_handler:
  assumes "x_res m = None \<or> y_res m = None \<or> point m = None \<or> scalar m = None"
  shows "\<exists>cond. first_failed_check m = Some cond \<and>
           (\<forall>c. ctx m = Some c \<longrightarrow>
              frame_after K m = m\<lparr>trace := trace m @ [Ev_illegal_callback cond]\<rparr> \<and>
              exit_of K m =
                (case illegal_callback (context_at K (mem m) c) of
                   Cb_abort \<Rightarrow> Exit_abort
                 | Cb_return \<Rightarrow> Exit_return 0)) \<and>
           (ctx m = None \<longrightarrow> exit_of K m = Exit_undefined \<and> frame_after K m = m)"
proof -
  have "first_failed_check m \<noteq> None"
    using assms by (auto simp add: first_failed_check_def)
  then obtain cond where c: "first_failed_check m = Some cond"
    by blast
  then show ?thesis
    by (simp add: arg_missing arg_missing_null_context exit_after_handler_def)
qed

text \<open>
  A null scalar under the default handler, a null \<open>y_res\<close> and point (the first failed
  check is reported) under a handler that comes back, and a null scalar with a null context.
\<close>

theorem null_argument_invokes_handler_witness:
  "scalar ((call_frame Cb_abort scalar_one)\<lparr>scalar := None\<rparr>) = None \<and>
   ctx ((call_frame Cb_abort scalar_one)\<lparr>scalar := None\<rparr>) = Some 0 \<and>
   illegal_callback
     (context_at ref_kernel (mem ((call_frame Cb_abort scalar_one)\<lparr>scalar := None\<rparr>)) 0) =
     Cb_abort \<and>
   frame_after ref_kernel ((call_frame Cb_abort scalar_one)\<lparr>scalar := None\<rparr>) =
     (call_frame Cb_abort scalar_one)
       \<lparr>scalar := None, trace := [Ev_illegal_callback ''scalar != NULL'']\<rparr> \<and>
   exit_of ref_kernel ((call_frame Cb_abort scalar_one)\<lparr>scalar := None\<rparr>) = Exit_abort \<and>
   y_res ((call_frame Cb_return scalar_one)\<lparr>y_res := None, point := None\<rparr>) = None \<and>
   ctx ((call_frame Cb_return scalar_one)\<lparr>y_res := None, point := None\<rparr>) = Some 0 \<and>
   illegal_callback
     (context_at ref_kernel
       (mem ((call_frame Cb_return scalar_one)\<lparr>y_res := None, point := None\<rparr>)) 0) =
     Cb_return \<and>
   frame_after ref_kernel ((call_frame Cb_return scalar_one)\<lparr>y_res := None, point := None\<rparr>) =
     (call_frame Cb_return scalar_one)
       \<lparr>y_res := None, point := None, trace := [Ev_illegal_callback ''y_res != NULL'']\<rparr> \<and>
   exit_of ref_kernel ((call_frame Cb_return scalar_one)\<lparr>y_res := None, point := None\<rparr>) =
     Exit_return 0 \<and>
   scalar ((call_frame Cb_abort scalar_one)\<lparr>ctx := None, scalar := None\<rparr>) = None \<and>
   ctx ((call_frame Cb_abort scalar_one)\<lparr>ctx := None, scalar := None\<rparr>) = None \<and>
   exit_of ref_kernel ((call_frame Cb_abort scalar_one)\<lparr>ctx := None, scalar := None\<rparr>) =
     Exit_undefined"
proof -
  have c1: "ctx ((call_frame Cb_abort scalar_one)\<lparr>scalar := None\<rparr>) = Some 0"
    and c2: "ctx ((call_frame Cb_return scalar_one)\<lparr>y_res := None, point := None\<rparr>) = Some 0"
    by (simp_all add: call_frame_pointers)
  have h1: "context_at ref_kernel (mem ((call_frame Cb_abort scalar_one)\<lparr>scalar := None\<rparr>)) 0 =
      \<lparr>illegal_callback = Cb_abort\<rparr>"
    and h2: "context_at ref_kernel
      (mem ((call_frame Cb_return scalar_one)\<lparr>y_res := None, point := None\<rparr>)) 0 =
      \<lparr>illegal_callback = Cb_return\<rparr>"
    using call_frame_context [of Cb_abort scalar_one] call_frame_context [of Cb_return scalar_one]
    by simp_all
  show ?thesis
    using
      null_argument_invokes_handler
        [where K = ref_kernel and m = "(call_frame Cb_abort scalar_one)\<lparr>scalar := None\<rparr>"]
      null_argument_invokes_handler
        [where K = ref_kernel
          and m = "(call_frame Cb_return scalar_one)\<lparr>y_res := None, point := None\<rparr>"]
      null_argument_invokes_handler
        [where K = ref_kernel
          and m = "(call_frame Cb_abort scalar_one)\<lparr>ctx := None, scalar := None\<rparr>"]
    by (simp add: h1 h2 c1 c2 first_failed_check_def)
      (simp add: call_frame_def call_memory_handler)
qed

text \<open>
  \<^bold>\<open>C8.\<close> The routine is deterministic. Two calls with the same context object, key
  object and scalar bytes (and output pointers that are null in both calls or in neither)
  end the same way, whatever the uninitialised local \<^verbatim>\<open>s\<close> held at entry, whatever happened
  before, wherever the objects lie and whatever the output buffers held. When they succeed,
  the same two 32-byte strings are copied to \<^verbatim>\<open>x_res\<close> and to \<^verbatim>\<open>y_res\<close> in both calls, so
  that the regions at \<^verbatim>\<open>y_res\<close> hold the same bytes afterwards, and so do the regions at
  \<^verbatim>\<open>x_res\<close> when they do not overlap those at \<^verbatim>\<open>y_res\<close>. When they do not succeed, both
  leave memory and buffers as they were. And calls that start from the same memory with the
  same output pointers leave the same memory, success or not.
\<close>

theorem same_inputs_same_outputs:
  assumes "context_bytes K m1 = context_bytes K m2"
    and "point_object m1 = point_object m2" and "scalar_bytes m1 = scalar_bytes m2"
    and "x_res m1 = None \<longleftrightarrow> x_res m2 = None"
    and "y_res m1 = None \<longleftrightarrow> y_res m2 = None"
  shows "exit_of K m1 = exit_of K m2 \<and>
         (exit_of K m1 = Exit_return 1 \<longrightarrow>
            (\<exists>xa1 ya1 xa2 ya2 bx bys.
               x_res m1 = Some xa1 \<and> y_res m1 = Some ya1 \<and>
               x_res m2 = Some xa2 \<and> y_res m2 = Some ya2 \<and>
               length bx = 32 \<and> length bys = 32 \<and>
               mem (frame_after K m1) = store_bytes (store_bytes (mem m1) xa1 bx) ya1 bys \<and>
               mem (frame_after K m2) = store_bytes (store_bytes (mem m2) xa2 bx) ya2 bys \<and>
               y_bytes (frame_after K m1) = Some bys \<and>
               y_bytes (frame_after K m2) = Some bys \<and>
               (separate xa1 32 ya1 32 \<longrightarrow> x_bytes (frame_after K m1) = Some bx) \<and>
               (separate xa2 32 ya2 32 \<longrightarrow> x_bytes (frame_after K m2) = Some bx))) \<and>
         (exit_of K m1 \<noteq> Exit_return 1 \<longrightarrow>
            mem (frame_after K m1) = mem m1 \<and> mem (frame_after K m2) = mem m2 \<and>
            x_bytes (frame_after K m1) = x_bytes m1 \<and>
            y_bytes (frame_after K m1) = y_bytes m1 \<and>
            x_bytes (frame_after K m2) = x_bytes m2 \<and>
            y_bytes (frame_after K m2) = y_bytes m2) \<and>
         (mem m1 = mem m2 \<and> x_res m1 = x_res m2 \<and> y_res m1 = y_res m2 \<longrightarrow>
            mem (frame_after K m1) = mem (frame_after K m2) \<and>
            x_bytes (frame_after K m1) = x_bytes (frame_after K m2) \<and>
            y_bytes (frame_after K m1) = y_bytes (frame_after K m2))"
proof (cases rule: routine_cases [of m1 K])
  case (undefined cond)
  have "first_failed_check m2 = Some cond"
    using first_failed_check_cong [OF assms(2-5)] undefined(1) by simp
  moreover have "ctx m2 = None"
    using assms(1) undefined(2) by (simp add: context_bytes_def)
  ultimately show ?thesis
    using undefined(3) by (simp add: arg_missing_null_context x_bytes_def y_bytes_def)
next
  case (missing cond c)
  have f: "first_failed_check m2 = Some cond"
    using first_failed_check_cong [OF assms(2-5)] missing(1) by simp
  obtain c2 where c2: "ctx m2 = Some c2"
    and "load_bytes (mem m2) c2 (context_size K) = load_bytes (mem m1) c (context_size K)"
    using assms(1) missing(2) by (cases "ctx m2") (simp_all add: context_bytes_def)
  then have "context_at K (mem m2) c2 = context_at K (mem m1) c"
    by (simp add: context_at_def)
  then show ?thesis
    using missing(3) arg_missing [OF f c2, of K]
    by (simp add: exit_after_handler_def x_bytes_def y_bytes_def split: callback.splits)
next
  case (rejected xa ya pk sc)
  obtain xa2 ya2 where "x_res m2 = Some xa2" and "y_res m2 = Some ya2"
    using rejected(1,2) assms(4,5) by auto
  then have "secp256k1_pubkey_scalar_mul K m2 =
      (Exit_return 0, m2\<lparr>local_s := 0, trace := trace m2 @ rejected_events sc\<rparr>)"
    using rejected(3,4,5) assms(2,3) by (simp add: call_rejected)
  then show ?thesis
    using rejected(6) by (simp add: x_bytes_def y_bytes_def)
next
  case (accepted xa ya pk sc)
  obtain xa2 ya2 where out2: "x_res m2 = Some xa2" "y_res m2 = Some ya2"
    using accepted(1,2) assms(4,5) by auto
  then have second: "secp256k1_pubkey_scalar_mul K m2 =
      (Exit_return 1,
       m2\<lparr>mem := store_bytes (store_bytes (mem m2) xa2 (result_x K pk sc)) ya2
                   (result_y K pk sc),
          local_s := 0,
          trace := trace m2 @ accepted_events K pk sc\<rparr>)"
    using accepted(3,4,5,6) assms(2,3) by (simp add: call_accepted)
  have written: "\<exists>bx bys.
      length bx = 32 \<and> length bys = 32 \<and>
      mem (frame_after K m1) = store_bytes (store_bytes (mem m1) xa bx) ya bys \<and>
      mem (frame_after K m2) = store_bytes (store_bytes (mem m2) xa2 bx) ya2 bys \<and>
      y_bytes (frame_after K m1) = Some bys \<and>
      y_bytes (frame_after K m2) = Some bys \<and>
      (separate xa 32 ya 32 \<longrightarrow> x_bytes (frame_after K m1) = Some bx) \<and>
      (separate xa2 32 ya2 32 \<longrightarrow> x_bytes (frame_after K m2) = Some bx)"
    using accepted(1,2) out2 result_lengths [of K pk sc]
    by (intro exI [of _ "result_x K pk sc"] exI [of _ "result_y K pk sc"])
      (simp add: accepted(7) second x_bytes_def y_bytes_def second_copy_read first_copy_read)
  have same_start: "mem (frame_after K m1) = mem (frame_after K m2) \<and>
      x_bytes (frame_after K m1) = x_bytes (frame_after K m2) \<and>
      y_bytes (frame_after K m1) = y_bytes (frame_after K m2)"
    if "mem m1 = mem m2" and "x_res m1 = x_res m2" and "y_res m1 = y_res m2"
    using that accepted(1,2) out2
    by (simp add: accepted(7) second x_bytes_def y_bytes_def)
  show ?thesis
    using written same_start accepted(1,2) out2 by (simp add: accepted(7) second)
qed

text \<open>
  Calling twice: the second call starts from the frame the first one left, with the output
  buffers holding the first result and the local \<^verbatim>\<open>s\<close> zeroed, and yields the same bytes.
\<close>

theorem same_inputs_same_outputs_witness:
  "context_bytes ref_kernel (call_frame Cb_abort scalar_one) =
     context_bytes ref_kernel (frame_after ref_kernel (call_frame Cb_abort scalar_one)) \<and>
   point_object (call_frame Cb_abort scalar_one) =
     point_object (frame_after ref_kernel (call_frame Cb_abort scalar_one)) \<and>
   scalar_bytes (call_frame Cb_abort scalar_one) =
     scalar_bytes (frame_after ref_kernel (call_frame Cb_abort scalar_one)) \<and>
   x_bytes (call_frame Cb_abort scalar_one) \<noteq>
     x_bytes (frame_after ref_kernel (call_frame Cb_abort scalar_one)) \<and>
   local_s (call_frame Cb_abort scalar_one) \<noteq>
     local_s (frame_after ref_kernel (call_frame Cb_abort scalar_one)) \<and>
   separate 192 32 256 32 \<and>
   exit_of ref_kernel (call_frame Cb_abort scalar_one) = Exit_return 1 \<and>
   exit_of ref_kernel (frame_after ref_kernel (call_frame Cb_abort scalar_one)) =
     Exit_return 1 \<and>
   x_bytes (frame_after ref_kernel (call_frame Cb_abort scalar_one)) =
     Some base_point_x_bytes \<and>
   x_bytes (frame_after ref_kernel (frame_after ref_kernel (call_frame Cb_abort scalar_one))) =
     Some base_point_x_bytes \<and>
   y_bytes (frame_after ref_kernel (call_frame Cb_abort scalar_one)) =
     Some base_point_y_bytes \<and>
   y_bytes (frame_after ref_kernel (frame_after ref_kernel (call_frame Cb_abort scalar_one))) =
     Some base_point_y_bytes"
proof -
  let ?m1 = "call_frame Cb_abort scalar_one"
  let ?m2 = "frame_after ref_kernel ?m1"
  note args1 = call_frame_args(1-3) [of Cb_abort scalar_one]
    call_frame_args(4) [OF scalar_lengths(2), of Cb_abort]
  have same: "context_bytes ref_kernel ?m1 = context_bytes ref_kernel ?m2"
    "point_object ?m1 = point_object ?m2" "scalar_bytes ?m1 = scalar_bytes ?m2"
    "x_res ?m1 = None \<longleftrightarrow> x_res ?m2 = None" "y_res ?m1 = None \<longleftrightarrow> y_res ?m2 = None"
    by (simp_all add: after_first_call before_first_call args1)
  have "hd (replicate 32 (0xAA :: byte)) = 0xAA" and "hd base_point_x_bytes \<noteq> 0xAA"
    by (simp_all add: base_point_x_bytes_def)
  then have "replicate 32 (0xAA :: byte) \<noteq> base_point_x_bytes"
    by metis
  then have differ: "x_bytes ?m1 \<noteq> Some base_point_x_bytes"
    by (simp add: call_frame_outputs scalar_lengths)
  have differ_s: "local_s ?m1 \<noteq> local_s ?m2"
    by (simp add: first_call) (simp add: call_frame_def)
  have sep: "separate 192 32 256 32"
    by (simp add: separate_def)
  have ok: "exit_of ref_kernel ?m1 = Exit_return 1"
    by (simp add: first_call)
  have second: "secp256k1_pubkey_scalar_mul ref_kernel ?m2 =
      (Exit_return 1,
       ?m2\<lparr>mem := store_bytes (store_bytes (mem ?m2) 192 base_point_x_bytes) 256
                    base_point_y_bytes,
           local_s := 0,
           trace := trace ?m2 @ accepted_events ref_kernel base_point scalar_one\<rparr>)"
    using call_accepted [where K = ref_kernel, OF after_first_call(2-5) scalar_one_in_range]
    by (simp add: ref_result_bytes)
  have again: "exit_of ref_kernel ?m2 = Exit_return 1"
    "x_bytes (frame_after ref_kernel ?m2) = Some base_point_x_bytes"
    "y_bytes (frame_after ref_kernel ?m2) = Some base_point_y_bytes"
    using after_first_call(2,3) [of Cb_abort]
    by (simp_all add: second x_bytes_def y_bytes_def second_copy_read first_copy_read
        base_point_lengths sep)
  show ?thesis
    using same_inputs_same_outputs [OF same]
    by (simp add: same(1-3) differ differ_s sep ok again after_first_call(7,8))
qed

text \<open>
  \<^bold>\<open>C9.\<close> The multiplication kernel is invoked only under the guard: each invocation a
  call makes has the loaded point and the canonical scalar as arguments, and that scalar is
  the integer value of the scalar buffer and lies in \<open>[1, n-1]\<close>. On every input that fails
  the guard none of multiplication, affine conversion, normalisation, serialisation and copy
  takes place.
\<close>

theorem kernel_invoked_only_under_guard:
  "(\<forall>pt s. Ev_ecmult_const pt s \<in> set (new_events m (frame_after K m)) \<longrightarrow>
      (\<exists>pk sc. point_object m = Some pk \<and> scalar_bytes m = Some sc \<and>
         pt = secp256k1_pubkey_load K pk \<and> s = scalar_value sc \<and>
         0 < s \<and> s < secp256k1_n)) \<and>
   ((\<forall>sc. scalar_bytes m = Some sc \<longrightarrow>
        scalar_value sc = 0 \<or> secp256k1_n \<le> scalar_value sc) \<longrightarrow>
      (\<forall>e \<in> set (new_events m (frame_after K m)). \<not> pipeline_event e))"
proof (cases rule: routine_cases [of m K])
  case (undefined cond)
  then show ?thesis
    by (simp add: new_events_def)
next
  case (missing cond c)
  then show ?thesis
    by (simp add: new_events_append)
next
  case (rejected xa ya pk sc)
  then show ?thesis
    by (simp add: new_events_append rejected_events_def)
next
  case (accepted xa ya pk sc)
  then show ?thesis
    by (simp add: new_events_append accepted_events_def)
qed

text \<open>
  The scalar one reaches the kernel; the scalar \<open>n\<close> is stopped by the overflow flag (the
  zero test is not even made), the scalar zero by the zero test.
\<close>

theorem kernel_invoked_only_under_guard_witness:
  "Ev_ecmult_const (ref_pubkey_load base_point) 1 \<in>
     set (new_events (call_frame Cb_abort scalar_one)
       (frame_after ref_kernel (call_frame Cb_abort scalar_one))) \<and>
   scalar_value scalar_one = 1 \<and> (1::nat) < secp256k1_n \<and>
   scalar_bytes (call_frame Cb_abort scalar_n) = Some scalar_n \<and>
   secp256k1_n \<le> scalar_value scalar_n \<and>
   new_events (call_frame Cb_abort scalar_n)
     (frame_after ref_kernel (call_frame Cb_abort scalar_n)) =
     [Ev_pubkey_load, Ev_scalar_set_b32, Ev_scalar_clear] \<and>
   scalar_bytes (call_frame Cb_abort scalar_zero) = Some scalar_zero \<and>
   scalar_value scalar_zero = 0 \<and>
   new_events (call_frame Cb_abort scalar_zero)
     (frame_after ref_kernel (call_frame Cb_abort scalar_zero)) =
     [Ev_pubkey_load, Ev_scalar_set_b32, Ev_scalar_is_zero, Ev_scalar_clear]"
proof -
  note an = call_frame_args(1-3) [of Cb_abort scalar_n]
    call_frame_args(4) [OF scalar_lengths(3), of Cb_abort]
  note az = call_frame_args(1-3) [of Cb_abort scalar_zero]
    call_frame_args(4) [OF scalar_lengths(1), of Cb_abort]
  have n: "secp256k1_pubkey_scalar_mul ref_kernel (call_frame Cb_abort scalar_n) =
      (Exit_return 0,
       (call_frame Cb_abort scalar_n)
         \<lparr>local_s := 0,
          trace := trace (call_frame Cb_abort scalar_n) @ rejected_events scalar_n\<rparr>)"
    by (simp add: call_rejected [OF an] scalar_value_n)
  have z: "secp256k1_pubkey_scalar_mul ref_kernel (call_frame Cb_abort scalar_zero) =
      (Exit_return 0,
       (call_frame Cb_abort scalar_zero)
         \<lparr>local_s := 0,
          trace := trace (call_frame Cb_abort scalar_zero) @ rejected_events scalar_zero\<rparr>)"
    by (simp add: call_rejected [OF az] scalar_value_zero)
  have t: "trace (call_frame cb sc) = []" for cb sc
    by (simp add: call_frame_def)
  have load: "secp256k1_pubkey_load ref_kernel = ref_pubkey_load"
    by (simp add: ref_kernel_def)
  show ?thesis
    using kernel_invoked_only_under_guard [of "call_frame Cb_abort scalar_one" ref_kernel]
      kernel_invoked_only_under_guard [of "call_frame Cb_abort scalar_n" ref_kernel]
      kernel_invoked_only_under_guard [of "call_frame Cb_abort scalar_zero" ref_kernel]
    by (simp add: first_call n z t new_events_def accepted_events_def rejected_events_def
        scalar_value_n scalar_value_zero scalar_value_one load an az secp256k1_n_def)
qed

text \<open>
  \<^bold>\<open>C10\<close> as stated fails: a call can modify an input. The prototype lets an output
  pointer point into an input, and no check excludes it. With \<^verbatim>\<open>x_res == scalar\<close>, the
  scalar one and the base point, the call returns 1 and line 37 has overwritten the
  caller's scalar buffer with the \<open>x\<close> coordinate.
\<close>

theorem scalar_overwritten_when_aliased:
  "x_res ((call_frame Cb_abort scalar_one)\<lparr>x_res := Some 128\<rparr>) =
     scalar ((call_frame Cb_abort scalar_one)\<lparr>x_res := Some 128\<rparr>) \<and>
   scalar_bytes ((call_frame Cb_abort scalar_one)\<lparr>x_res := Some 128\<rparr>) = Some scalar_one \<and>
   exit_of ref_kernel ((call_frame Cb_abort scalar_one)\<lparr>x_res := Some 128\<rparr>) =
     Exit_return 1 \<and>
   scalar_bytes (frame_after ref_kernel ((call_frame Cb_abort scalar_one)\<lparr>x_res := Some 128\<rparr>)) =
     Some base_point_x_bytes \<and>
   base_point_x_bytes \<noteq> scalar_one"
proof -
  let ?m = "(call_frame Cb_abort scalar_one)\<lparr>x_res := Some 128\<rparr>"
  have args: "x_res ?m = Some 128" "y_res ?m = Some 256" "point_object ?m = Some base_point"
    "scalar_bytes ?m = Some scalar_one"
    using call_frame_args(2,3) [of Cb_abort scalar_one]
      call_frame_args(4) [OF scalar_lengths(2), of Cb_abort]
    by (simp_all add: point_object_def scalar_bytes_def)
  have call: "secp256k1_pubkey_scalar_mul ref_kernel ?m =
      (Exit_return 1,
       ?m\<lparr>mem := store_bytes (store_bytes (mem ?m) 128 base_point_x_bytes) 256
                   base_point_y_bytes,
          local_s := 0,
          trace := trace ?m @ accepted_events ref_kernel base_point scalar_one\<rparr>)"
    using call_accepted [where K = ref_kernel, OF args scalar_one_in_range]
    by (simp add: ref_result_bytes)
  have sep: "separate 128 32 256 32"
    by (simp add: separate_def)
  have after: "scalar_bytes (frame_after ref_kernel ?m) = Some base_point_x_bytes"
    by (simp add: call scalar_bytes_def call_frame_pointers first_copy_read
        base_point_lengths sep)
  have "hd base_point_x_bytes = 0x79" and "hd scalar_one = 0"
    by (simp_all add: base_point_x_bytes_def scalar_one_def hd_append)
  then have differ: "base_point_x_bytes \<noteq> scalar_one"
    by auto
  have same_buffer: "x_res ?m = scalar ?m"
    by (simp add: call_frame_pointers)
  have ok: "exit_of ref_kernel ?m = Exit_return 1"
    by (simp add: call)
  from same_buffer args(4) ok after differ show ?thesis
    by (intro conjI)
qed

text \<open>
  \<^bold>\<open>C10\<close>, amended. The routine changes none of its pointer arguments, and the only
  bytes of the caller's memory a call can change are the 32 bytes at \<^verbatim>\<open>x_res\<close> and the 32
  bytes at \<^verbatim>\<open>y_res\<close>. Hence, when neither output region overlaps the 32-byte scalar
  buffer, the 64-byte key object or the context object, these three inputs are the same
  after the call as before. A call ends in one of four ways: it returns 0, it returns 1,
  the handler ends the process, or no handler is reached; so a call that returns, returns 0
  or 1.
\<close>

theorem only_outputs_written:
  "scalar (frame_after K m) = scalar m \<and> point (frame_after K m) = point m \<and>
   ctx (frame_after K m) = ctx m \<and>
   x_res (frame_after K m) = x_res m \<and> y_res (frame_after K m) = y_res m \<and>
   (\<forall>i. (\<forall>xa. x_res m = Some xa \<longrightarrow> i < xa \<or> xa + 32 \<le> i) \<and>
        (\<forall>ya. y_res m = Some ya \<longrightarrow> i < ya \<or> ya + 32 \<le> i) \<longrightarrow>
        mem (frame_after K m) i = mem m i) \<and>
   ((\<forall>xa. x_res m = Some xa \<longrightarrow> clear_of_inputs K m xa) \<and>
    (\<forall>ya. y_res m = Some ya \<longrightarrow> clear_of_inputs K m ya) \<longrightarrow>
      scalar_bytes (frame_after K m) = scalar_bytes m \<and>
      point_object (frame_after K m) = point_object m \<and>
      context_bytes K (frame_after K m) = context_bytes K m) \<and>
   exit_of K m \<in> {Exit_return 0, Exit_return 1, Exit_abort, Exit_undefined}"
proof (cases rule: routine_cases [of m K])
  case (undefined cond)
  then show ?thesis
    by simp
next
  case (missing cond c)
  then show ?thesis
    by (simp add: exit_after_handler_def scalar_bytes_def point_object_def
        context_bytes_def split: callback.splits)
next
  case (rejected xa ya pk sc)
  then show ?thesis
    by (simp add: scalar_bytes_def point_object_def context_bytes_def)
next
  case (accepted xa ya pk sc)
  note lens = result_lengths [of K pk sc]
  have outside: "mem (frame_after K m) i = mem m i"
    if "i < xa \<or> xa + 32 \<le> i" and "i < ya \<or> ya + 32 \<le> i" for i
    using that lens by (simp add: accepted(7) copies_outside)
  have kept: "scalar_bytes (frame_after K m) = scalar_bytes m \<and>
      point_object (frame_after K m) = point_object m \<and>
      context_bytes K (frame_after K m) = context_bytes K m"
    if "clear_of_inputs K m xa" and "clear_of_inputs K m ya"
    using that lens
    by (cases "scalar m"; cases "point m"; cases "ctx m")
      (simp_all add: accepted(7) scalar_bytes_def point_object_def context_bytes_def
        pubkey_at_def clear_of_inputs_def region_kept)
  show ?thesis
    using accepted(1,2) outside kept by (simp add: accepted(7))
qed

text \<open>
  The concrete frame keeps its outputs clear of its inputs; the successful call leaves
  scalar, key object and context as they were, and the byte behind the region at
  \<^verbatim>\<open>x_res\<close> too.
\<close>

theorem only_outputs_written_witness:
  "clear_of_inputs ref_kernel (call_frame Cb_abort scalar_one) 192 \<and>
   clear_of_inputs ref_kernel (call_frame Cb_abort scalar_one) 256 \<and>
   exit_of ref_kernel (call_frame Cb_abort scalar_one) = Exit_return 1 \<and>
   scalar_bytes (frame_after ref_kernel (call_frame Cb_abort scalar_one)) = Some scalar_one \<and>
   point_object (frame_after ref_kernel (call_frame Cb_abort scalar_one)) = Some base_point \<and>
   context_bytes ref_kernel (frame_after ref_kernel (call_frame Cb_abort scalar_one)) =
     Some [context_byte Cb_abort] \<and>
   mem (frame_after ref_kernel (call_frame Cb_abort scalar_one)) 224 =
     mem (call_frame Cb_abort scalar_one) 224"
proof -
  let ?m = "call_frame Cb_abort scalar_one"
  have clear: "clear_of_inputs ref_kernel ?m 192" "clear_of_inputs ref_kernel ?m 256"
    by (simp_all add: clear_of_inputs_def call_frame_pointers separate_def ref_context_size)
  have ok: "exit_of ref_kernel ?m = Exit_return 1"
    by (simp add: first_call)
  note args = call_frame_args(1-3) [of Cb_abort scalar_one]
    call_frame_args(4) [OF scalar_lengths(2), of Cb_abort]
  have "mem (frame_after ref_kernel ?m) 224 = mem ?m 224"
    using only_outputs_written [of ref_kernel ?m]
    by (simp add: call_frame_pointers)
  then show ?thesis
    using only_outputs_written [of ref_kernel ?m] clear ok
    by (simp add: call_frame_pointers args before_first_call)
qed

end
